theory Spec2Isabelle
  imports Complex_Main "HOL-Library.AList"
begin

section \<open>Python values, rows and floating-point numbers\<close>

text \<open>
  The two scripts \<^verbatim>\<open>PDE-complexity/loop.py\<close> and \<^verbatim>\<open>PDE-complexity/scorer.py\<close> work on
  the rows that \<^verbatim>\<open>csv.DictReader\<close> yields: dictionaries whose keys are the column names
  of the header (and the key \<^verbatim>\<open>None\<close>, under which \<^verbatim>\<open>DictReader\<close> stores the surplus
  cells of a row longer than the header), and whose values are text, \<^verbatim>\<open>None\<close> (a cell
  missing from a short row), a list of texts (the surplus cells) and, once the scripts
  have stored their results, floats. A dictionary keeps its keys in insertion order, so a
  row is an association list; \<^const>\<open>AList.update\<close> is \<^verbatim>\<open>row[k] = v\<close>: it replaces the value in
  place when the key is there and appends the pair otherwise. A dictionary has every key
  once; nothing below depends on it.

  Text is \<^typ>\<open>string\<close>; a character stands for the code point of the same number.
\<close>

datatype pykey = KStr string | KNone

datatype 'f pyval =
    VNone
  | VStr string
  | VInt int
  | VFloat 'f
  | VList "string list"

type_synonym 'f row = "(pykey \<times> 'f pyval) list"

datatype exn =
    TypeError
  | ValueError
  | AttributeError
  | IndexError
  | OverflowError
  | CalledProcessError
  | FileNotFoundError
  | OSError

text \<open>
  Python's \<^verbatim>\<open>float\<close> is the platform's binary floating point. The scripts use it through
  the operations below, which the model takes as a parameter, so that every theorem holds
  for whatever these operations compute (rounding, infinities and NaN included):
  \<^item> \<open>float_of_str s\<close> is \<^verbatim>\<open>float(s)\<close> for a non-empty text \<open>s\<close>, \<open>None\<close> when it raises
    \<^verbatim>\<open>ValueError\<close>;
  \<^item> \<open>float_of_int i\<close> is \<^verbatim>\<open>float(i)\<close>, the float an int operand is converted to;
  \<^item> \<open>fadd\<close>, \<open>fsub\<close>, \<open>fmul\<close> are \<^verbatim>\<open>+\<close>, \<^verbatim>\<open>-\<close>, \<^verbatim>\<open>*\<close>, which never raise; \<open>fdiv\<close> is \<^verbatim>\<open>/\<close>
    for a divisor that is not zero;
  \<^item> \<open>fpow2 x\<close> is \<^verbatim>\<open>x ** 2\<close>, which raises \<^verbatim>\<open>OverflowError\<close> when \<open>pow2_overflows x\<close>;
  \<^item> \<open>fsum\<close> is the built-in \<^verbatim>\<open>sum\<close> on a non-empty sequence of floats;
  \<^item> \<open>is_zero x\<close> is \<^verbatim>\<open>x == 0\<close> and \<open>is_nan\<close> is \<^verbatim>\<open>math.isnan\<close>.
\<close>

record 'f float_ops =
  float_of_str :: "string \<Rightarrow> 'f option"
  float_of_int :: "int \<Rightarrow> 'f"
  fadd :: "'f \<Rightarrow> 'f \<Rightarrow> 'f"
  fsub :: "'f \<Rightarrow> 'f \<Rightarrow> 'f"
  fmul :: "'f \<Rightarrow> 'f \<Rightarrow> 'f"
  fdiv :: "'f \<Rightarrow> 'f \<Rightarrow> 'f"
  fpow2 :: "'f \<Rightarrow> 'f"
  pow2_overflows :: "'f \<Rightarrow> bool"
  fsum :: "'f list \<Rightarrow> 'f"
  is_zero :: "'f \<Rightarrow> bool"
  is_nan :: "'f \<Rightarrow> bool"

text \<open>The literal \<^verbatim>\<open>0.0\<close>, which is also \<^verbatim>\<open>float(0)\<close>.\<close>

definition fzero :: "'f float_ops \<Rightarrow> 'f" where
  "fzero ops = float_of_int ops 0"

text \<open>\<^verbatim>\<open>row.get(key)\<close> and \<^verbatim>\<open>row.get(key, default)\<close>.\<close>

definition py_get :: "'f row \<Rightarrow> pykey \<Rightarrow> 'f pyval" where
  "py_get row k = (case map_of row k of None \<Rightarrow> VNone | Some v \<Rightarrow> v)"

definition py_get_default :: "'f row \<Rightarrow> pykey \<Rightarrow> 'f pyval \<Rightarrow> 'f pyval" where
  "py_get_default row k d = (case map_of row k of None \<Rightarrow> d | Some v \<Rightarrow> v)"

text \<open>
  The built-in \<^verbatim>\<open>float(v)\<close>: a float is returned as it is, an int is converted (the only
  int the scripts pass is the default \<^verbatim>\<open>0\<close> of \<^verbatim>\<open>row.get(col, 0)\<close> in \<^verbatim>\<open>scorer.py\<close>), a text
  is parsed (the empty text is not a number: \<^verbatim>\<open>ValueError\<close>), and \<^verbatim>\<open>None\<close> or a list is a
  \<^verbatim>\<open>TypeError\<close>.
\<close>

definition py_float :: "'f float_ops \<Rightarrow> 'f pyval \<Rightarrow> exn + 'f" where
  "py_float ops v =
     (case v of
        VNone \<Rightarrow> Inl TypeError
      | VStr s \<Rightarrow>
          (if s = [] then Inl ValueError
           else case float_of_str ops s of None \<Rightarrow> Inl ValueError | Some x \<Rightarrow> Inr x)
      | VInt i \<Rightarrow> Inr (float_of_int ops i)
      | VFloat x \<Rightarrow> Inr x
      | VList l \<Rightarrow> Inl TypeError)"

section \<open>loop.py: helpers\<close>

definition SCORING_COLUMNS :: "pykey list" where
  "SCORING_COLUMNS =
     [KStr ''Dimensionality'', KStr ''Nonlinearity'', KStr ''Boundary'', KStr ''Time'',
      KStr ''Coupling'']"

text \<open>
  \<^verbatim>\<open>parse_float(val, default=None)\<close>. The default is \<^verbatim>\<open>None\<close> or a float, and so is the
  result. \<^verbatim>\<open>float\<close> raises nothing but the two exceptions that are caught here
  (lemma \<open>py_float_raises\<close>).
\<close>

definition parse_float :: "'f float_ops \<Rightarrow> 'f pyval \<Rightarrow> 'f option \<Rightarrow> 'f option" where
  "parse_float ops val dflt =
     (if val = VNone \<or> val = VStr [] then dflt
      else case py_float ops val of Inr x \<Rightarrow> Some x | Inl e \<Rightarrow> dflt)"

text \<open>
  \<^verbatim>\<open>compute_total_score(row)\<close>: the \<^verbatim>\<open>for\<close> loop over the scoring columns, with the running
  \<^verbatim>\<open>total\<close> as accumulator \<open>tot\<close>. \<^verbatim>\<open>total += v\<close> would raise \<^verbatim>\<open>TypeError\<close> on \<^verbatim>\<open>v = None\<close>.
\<close>

fun score_loop ::
  "'f float_ops \<Rightarrow> 'f row \<Rightarrow> pykey list \<Rightarrow> 'f \<Rightarrow> exn + 'f" where
  "score_loop ops row [] tot = Inr tot"
| "score_loop ops row (col # cols) tot =
     (case parse_float ops (py_get row col) (Some (fzero ops)) of
        None \<Rightarrow> Inl TypeError
      | Some v \<Rightarrow> score_loop ops row cols (fadd ops tot v))"

definition compute_total_score :: "'f float_ops \<Rightarrow> 'f row \<Rightarrow> exn + 'f" where
  "compute_total_score ops row = score_loop ops row SCORING_COLUMNS (fzero ops)"

text \<open>
  \<^verbatim>\<open>str.strip()\<close> removes the leading and trailing whitespace; these are the whitespace
  code points below 256 (\<^verbatim>\<open>str.isspace\<close>).
\<close>

definition py_isspace :: "char \<Rightarrow> bool" where
  "py_isspace c = (of_char c \<in> {9, 10, 11, 12, 13, 28, 29, 30, 31, 32, 133, 160 :: nat})"

definition py_strip :: "string \<Rightarrow> string" where
  "py_strip s = rev (dropWhile py_isspace (rev (dropWhile py_isspace s)))"

text \<open>The truth value of a Python value, as \<^verbatim>\<open>or\<close> and \<^verbatim>\<open>not\<close> test it.\<close>

definition truthy :: "'f float_ops \<Rightarrow> 'f pyval \<Rightarrow> bool" where
  "truthy ops v =
     (case v of
        VNone \<Rightarrow> False
      | VStr s \<Rightarrow> s \<noteq> []
      | VInt i \<Rightarrow> i \<noteq> 0
      | VFloat x \<Rightarrow> \<not> is_zero ops x
      | VList l \<Rightarrow> l \<noteq> [])"

subsection \<open>Effects\<close>

text \<open>
  What a run does to the outside is recorded as a trace of events, in the order in which
  they happen: a line printed, a call of a trainer subprocess with how it ended, a file
  opened for writing (created or truncated), and what is written to it. A \<^verbatim>\<open>print\<close> is identified by
  its statement and the values formatted into it. The cells of a row are recorded as
  handed to \<^verbatim>\<open>csv.writer\<close>, before it formats them.

  The trainer is outside the repository: \<open>run module w\<close> is what
  \<^verbatim>\<open>subprocess.run([sys.executable, "-m", module], cwd=repo_root, check=True)\<close> meets in the
  world \<open>w\<close>: the process exits with a status, or never exits (the call has no timeout),
  or the call raises before there is a process (\<^verbatim>\<open>OSError\<close> on an argument that is too
  long for the system); and it leaves the world changed. Whatever the world, the call
  raises \<^verbatim>\<open>ValueError\<close> before there is a process when the module name holds a NUL
  character, which \<^verbatim>\<open>csv\<close> reads from a file like any other.

  Printing to the console, and opening and writing the two output files, are taken to
  succeed: the trace records them, and no failure of the console or of the file system is
  among the outcomes.
\<close>

datatype proc_result = Exited int | Hangs | NotStarted exn

definition subprocess_run ::
  "(string \<Rightarrow> 'w \<Rightarrow> proc_result \<times> 'w) \<Rightarrow> string \<Rightarrow> 'w \<Rightarrow> proc_result \<times> 'w" where
  "subprocess_run run m w =
     (if CHR 0x00 \<in> set m then (NotStarted ValueError, w) else run m w)"

datatype outfile = ResultsCsv | RegressionTxt

datatype 'f message =
    MsgNotFound
  | MsgNoRows
  | MsgLoaded nat
  | MsgSkip "'f pyval"
  | MsgRunning "'f pyval" string
  | MsgDone "'f pyval"
  | MsgWrote
  | MsgNotEnough
  | MsgRegression 'f 'f
  | MsgSaved
  | MsgScored nat

datatype 'f event =
    Print "'f message"
  | Subprocess string proc_result
  | OpenWrite outfile
  | WriteHeader "pykey list"
  | WriteRow "'f pyval list"
  | WriteRegression 'f 'f
  | WriteUsed nat

text \<open>
  How a call ends other than by returning: an exception that nothing catches,
  \<^verbatim>\<open>sys.exit(status)\<close>, or waiting for ever on a subprocess. A function with effects returns
  \<open>Inl\<close> of these or \<open>Inr\<close> of its value, together with the state it leaves.
\<close>

datatype stop = Raised exn | SysExit int | Hung

record ('f, 'w) state =
  trace :: "'f event list"
  world :: 'w

definition emit :: "'f event \<Rightarrow> ('f, 'w) state \<Rightarrow> ('f, 'w) state" where
  "emit e st = st\<lparr>trace := trace st @ [e]\<rparr>"

text \<open>\<^verbatim>\<open>run_trainer_for_row(row, repo_root)\<close>. A value that is not text has no \<^verbatim>\<open>strip\<close>.\<close>

definition run_trainer_for_row ::
  "'f float_ops \<Rightarrow> (string \<Rightarrow> 'w \<Rightarrow> proc_result \<times> 'w) \<Rightarrow> 'f row \<Rightarrow> ('f, 'w) state
     \<Rightarrow> (stop + unit) \<times> ('f, 'w) state" where
  "run_trainer_for_row ops run row st =
     (case (let v = py_get row (KStr ''TrainerModule'') in if truthy ops v then v else VStr [])
      of
        VStr s \<Rightarrow>
          (let module = py_strip s;
               name = py_get_default row (KStr ''Name'') (VStr ''UNKNOWN'')
           in if module = [] then (Inr (), emit (Print (MsgSkip name)) st)
              else
                (let st1 = emit (Print (MsgRunning name module)) st;
                     (res, w) = subprocess_run run module (world st1);
                     st2 = emit (Subprocess module res) (st1\<lparr>world := w\<rparr>)
                 in case res of
                      NotStarted e \<Rightarrow> (Inl (Raised e), st2)
                    | Hangs \<Rightarrow> (Inl Hung, st2)
                    | Exited status \<Rightarrow>
                        if status \<noteq> 0 then (Inl (Raised CalledProcessError), st2)
                        else (Inr (), emit (Print (MsgDone name)) st2)))
      | _ \<Rightarrow> (Inl (Raised AttributeError), st))"

definition get_error_for_row :: "'f float_ops \<Rightarrow> 'f row \<Rightarrow> 'f option" where
  "get_error_for_row ops row = parse_float ops (py_get row (KStr ''L3_Error'')) None"

text \<open>
  The built-in \<^verbatim>\<open>sum\<close>: the int \<^verbatim>\<open>0\<close> for an empty sequence, which the divisions below
  convert to \<^verbatim>\<open>0.0\<close>.
\<close>

definition py_sum :: "'f float_ops \<Rightarrow> 'f list \<Rightarrow> 'f" where
  "py_sum ops xs = (if xs = [] then fzero ops else fsum ops xs)"

text \<open>
  \<^verbatim>\<open>linear_regression(xs, ys)\<close>. The result is \<open>None\<close> for \<^verbatim>\<open>(None, None)\<close>. \<^verbatim>\<open>n\<close> and
  \<^verbatim>\<open>den\<close> are not zero where they divide, so that no division raises; the generator of
  \<^verbatim>\<open>den\<close> raises \<^verbatim>\<open>OverflowError\<close> at the first square that overflows.
\<close>

definition linear_regression ::
  "'f float_ops \<Rightarrow> 'f list \<Rightarrow> 'f list \<Rightarrow> exn + ('f \<times> 'f) option" where
  "linear_regression ops xs ys =
     (let n = length xs in
      if n = 0 then Inr None
      else
        (let mean_x = fdiv ops (py_sum ops xs) (float_of_int ops (int n));
             mean_y = fdiv ops (py_sum ops ys) (float_of_int ops (int n));
             num = py_sum ops
                     (map (\<lambda>(x, y). fmul ops (fsub ops x mean_x) (fsub ops y mean_y)) (zip xs ys))
         in if list_ex (\<lambda>x. pow2_overflows ops (fsub ops x mean_x)) xs then Inl OverflowError
            else
              (let den = py_sum ops (map (\<lambda>x. fpow2 ops (fsub ops x mean_x)) xs) in
               if is_zero ops den then Inr None
               else
                 (let a = fdiv ops num den;
                      b = fsub ops mean_y (fmul ops a mean_x)
                  in Inr (Some (a, b))))))"

section \<open>loop.py: the pipeline\<close>

text \<open>
  The \<^verbatim>\<open>for row in rows\<close> loop of \<^verbatim>\<open>main\<close> (steps 2 to 4). It updates each row in place;
  the model returns the updated rows. An exception leaves the loop at once.
\<close>

fun main_loop ::
  "'f float_ops \<Rightarrow> (string \<Rightarrow> 'w \<Rightarrow> proc_result \<times> 'w) \<Rightarrow> 'f row list \<Rightarrow> ('f, 'w) state
     \<Rightarrow> (stop + 'f row list) \<times> ('f, 'w) state" where
  "main_loop ops run [] st = (Inr [], st)"
| "main_loop ops run (row # rest) st =
     (case compute_total_score ops row of
        Inl e \<Rightarrow> (Inl (Raised e), st)
      | Inr total_score \<Rightarrow>
          (let row1 = AList.update (KStr ''Total_Score'') (VFloat total_score) row in
           case run_trainer_for_row ops run row1 st of
             (Inl e, st1) \<Rightarrow> (Inl e, st1)
           | (Inr u, st1) \<Rightarrow>
               (let row2 =
                      (case get_error_for_row ops row1 of
                         None \<Rightarrow> row1
                       | Some error \<Rightarrow> AList.update (KStr ''L3_Error'') (VFloat error) row1)
                in case main_loop ops run rest st1 of
                     (Inl e, st2) \<Rightarrow> (Inl e, st2)
                   | (Inr rest', st2) \<Rightarrow> (Inr (row2 # rest'), st2))))"

text \<open>
  \<^verbatim>\<open>csv.DictWriter(f, fieldnames=fieldnames)\<close> turns a row into the list of its cells, in
  the order of \<^verbatim>\<open>fieldnames\<close>: it raises \<^verbatim>\<open>ValueError\<close> on a row with a key that is not a
  field name, and writes the empty text for a field name the row does not have.
  \<^verbatim>\<open>writerows\<close> writes the rows one by one, up to the first row that raises.
\<close>

definition dict_to_list :: "pykey list \<Rightarrow> 'f row \<Rightarrow> exn + 'f pyval list" where
  "dict_to_list fieldnames rowdict =
     (if list_ex (\<lambda>k. k \<notin> set fieldnames) (map fst rowdict) then Inl ValueError
      else Inr (map (\<lambda>key. py_get_default rowdict key (VStr [])) fieldnames))"

fun writerows ::
  "pykey list \<Rightarrow> 'f row list \<Rightarrow> ('f, 'w) state \<Rightarrow> (stop + unit) \<times> ('f, 'w) state" where
  "writerows fieldnames [] st = (Inr (), st)"
| "writerows fieldnames (r # rs) st =
     (case dict_to_list fieldnames r of
        Inl e \<Rightarrow> (Inl (Raised e), st)
      | Inr cells \<Rightarrow> writerows fieldnames rs (emit (WriteRow cells) st))"

text \<open>Step 5 of \<^verbatim>\<open>main\<close>: \<^verbatim>\<open>results.csv\<close>. \<^verbatim>\<open>rows[0]\<close> raises on an empty list.\<close>

definition write_results ::
  "'f row list \<Rightarrow> ('f, 'w) state \<Rightarrow> (stop + unit) \<times> ('f, 'w) state" where
  "write_results rows st =
     (case rows of
        [] \<Rightarrow> (Inl (Raised IndexError), st)
      | r0 # _ \<Rightarrow>
          (let keys = map fst r0;
               fieldnames =
                 (if KStr ''Total_Score'' \<notin> set keys then keys @ [KStr ''Total_Score'']
                  else keys);
               st1 = emit (WriteHeader fieldnames) (emit (OpenWrite ResultsCsv) st)
           in case writerows fieldnames rows st1 of
                (Inl e, st2) \<Rightarrow> (Inl e, st2)
              | (Inr u, st2) \<Rightarrow> (Inr (), emit (Print MsgWrote) st2)))"

text \<open>Step 6 of \<^verbatim>\<open>main\<close>: the points of the regression, the fit and \<^verbatim>\<open>regression.txt\<close>.\<close>

fun collect_points :: "'f float_ops \<Rightarrow> 'f row list \<Rightarrow> 'f list \<times> 'f list" where
  "collect_points ops [] = ([], [])"
| "collect_points ops (r # rs) =
     (let score = parse_float ops (py_get r (KStr ''Total_Score'')) None;
          err = parse_float ops (py_get r (KStr ''L3_Error'')) None;
          (xs, ys) = collect_points ops rs
      in case (score, err) of
           (Some x, Some y) \<Rightarrow> if \<not> is_nan ops y then (x # xs, y # ys) else (xs, ys)
         | _ \<Rightarrow> (xs, ys))"

definition regression_stage ::
  "'f float_ops \<Rightarrow> 'f row list \<Rightarrow> ('f, 'w) state \<Rightarrow> (stop + unit) \<times> ('f, 'w) state" where
  "regression_stage ops rows st =
     (let (xs, ys) = collect_points ops rows in
      case linear_regression ops xs ys of
        Inl e \<Rightarrow> (Inl (Raised e), st)
      | Inr None \<Rightarrow> (Inr (), emit (Print MsgNotEnough) st)
      | Inr (Some (a, b)) \<Rightarrow>
          (Inr (),
           emit (Print MsgSaved)
             (emit (WriteUsed (length xs))
               (emit (WriteRegression a b)
                 (emit (OpenWrite RegressionTxt)
                   (emit (Print (MsgRegression a b)) st))))))"

text \<open>
  \<^verbatim>\<open>main()\<close>. The input is \<open>None\<close> when \<^verbatim>\<open>PDE.csv\<close> does not exist, and otherwise the rows
  that \<^verbatim>\<open>list(csv.DictReader(f))\<close> returns; \<open>w\<close> is the world the trainers run in.
\<close>

definition main ::
  "'f float_ops \<Rightarrow> (string \<Rightarrow> 'w \<Rightarrow> proc_result \<times> 'w) \<Rightarrow> 'f row list option \<Rightarrow> 'w
     \<Rightarrow> (stop + unit) \<times> ('f, 'w) state" where
  "main ops run input w =
     (let st0 = \<lparr>trace = [], world = w\<rparr> in
      case input of
        None \<Rightarrow> (Inl (SysExit 1), emit (Print MsgNotFound) st0)
      | Some rows \<Rightarrow>
          if rows = [] then (Inl (SysExit 0), emit (Print MsgNoRows) st0)
          else
            (case main_loop ops run rows (emit (Print (MsgLoaded (length rows))) st0) of
               (Inl e, st1) \<Rightarrow> (Inl e, st1)
             | (Inr rows', st1) \<Rightarrow>
                 (case write_results rows' st1 of
                    (Inl e, st2) \<Rightarrow> (Inl e, st2)
                  | (Inr u, st2) \<Rightarrow> regression_stage ops rows' st2)))"

section \<open>scorer.py\<close>

text \<open>
  The functions of \<^verbatim>\<open>scorer.py\<close> carry the prefix \<open>scorer_\<close>, since both scripts define
  \<^verbatim>\<open>parse_float\<close>, \<^verbatim>\<open>compute_total_score\<close> and \<^verbatim>\<open>main\<close>.
\<close>

definition COLUMNS_FOR_SCORING :: "pykey list" where
  "COLUMNS_FOR_SCORING =
     [KStr ''Dimensionality'', KStr ''Nonlinearity'', KStr ''Boundary'', KStr ''Time'',
      KStr ''Coupling'']"

definition scorer_parse_float :: "'f float_ops \<Rightarrow> 'f pyval \<Rightarrow> 'f" where
  "scorer_parse_float ops v = (case py_float ops v of Inr x \<Rightarrow> x | Inl e \<Rightarrow> fzero ops)"

fun scorer_score_loop :: "'f float_ops \<Rightarrow> 'f row \<Rightarrow> pykey list \<Rightarrow> 'f \<Rightarrow> 'f" where
  "scorer_score_loop ops row [] tot = tot"
| "scorer_score_loop ops row (col # cols) tot =
     scorer_score_loop ops row cols
       (fadd ops tot (scorer_parse_float ops (py_get_default row col (VInt 0))))"

definition scorer_compute_total_score :: "'f float_ops \<Rightarrow> 'f row \<Rightarrow> 'f" where
  "scorer_compute_total_score ops row = scorer_score_loop ops row COLUMNS_FOR_SCORING (fzero ops)"

text \<open>The \<^verbatim>\<open>for row in rows\<close> loop of \<^verbatim>\<open>main\<close>: every row is scored and written at once.\<close>

fun scorer_loop ::
  "'f float_ops \<Rightarrow> pykey list \<Rightarrow> 'f row list \<Rightarrow> 'f event list \<Rightarrow> (stop + unit) \<times> 'f event list"
  where
  "scorer_loop ops fieldnames [] tr = (Inr (), tr)"
| "scorer_loop ops fieldnames (row # rest) tr =
     (let total_score = scorer_compute_total_score ops row;
          row1 = AList.update (KStr ''Total_Score'') (VFloat total_score) row
      in case dict_to_list fieldnames row1 of
           Inl e \<Rightarrow> (Inl (Raised e), tr)
         | Inr cells \<Rightarrow> scorer_loop ops fieldnames rest (tr @ [WriteRow cells]))"

text \<open>
  \<^verbatim>\<open>main()\<close> of \<^verbatim>\<open>scorer.py\<close>. The input is \<open>None\<close> when \<^verbatim>\<open>PDE.csv\<close> does not exist (\<^verbatim>\<open>open\<close>
  raises), and otherwise \<^verbatim>\<open>reader.fieldnames\<close> (\<open>None\<close> for a file with no header) with the
  rows. The result is the outcome and the trace.
\<close>

definition scorer_main ::
  "'f float_ops \<Rightarrow> (pykey list option \<times> 'f row list) option
     \<Rightarrow> (stop + unit) \<times> 'f event list" where
  "scorer_main ops input =
     (case input of
        None \<Rightarrow> (Inl (Raised FileNotFoundError), [])
      | Some (reader_fieldnames, rows) \<Rightarrow>
          (let fieldnames0 =
                 (case reader_fieldnames of None \<Rightarrow> [] | Some fs \<Rightarrow> if fs \<noteq> [] then fs else []);
               fieldnames =
                 (if KStr ''Total_Score'' \<notin> set fieldnames0
                  then fieldnames0 @ [KStr ''Total_Score''] else fieldnames0)
           in case scorer_loop ops fieldnames rows
                     [OpenWrite ResultsCsv, WriteHeader fieldnames] of
                (Inl e, tr) \<Rightarrow> (Inl e, tr)
              | (Inr u, tr) \<Rightarrow> (Inr (), tr @ [Print (MsgScored (length rows))])))"

section \<open>The specification's notions\<close>

text \<open>
  The value a scoring column contributes to the score, as the specification words it:
  the column's value parsed as a number, and \<^verbatim>\<open>0.0\<close> for a missing key, an empty text or a
  text that is not a number (and for a cell that is \<^verbatim>\<open>None\<close> or a list).
\<close>

definition column_value :: "'f float_ops \<Rightarrow> 'f row \<Rightarrow> pykey \<Rightarrow> 'f" where
  "column_value ops row col =
     (case map_of row col of
        None \<Rightarrow> fzero ops
      | Some VNone \<Rightarrow> fzero ops
      | Some (VStr s) \<Rightarrow>
          (if s = [] then fzero ops
           else case float_of_str ops s of None \<Rightarrow> fzero ops | Some x \<Rightarrow> x)
      | Some (VInt i) \<Rightarrow> float_of_int ops i
      | Some (VFloat x) \<Rightarrow> x
      | Some (VList l) \<Rightarrow> fzero ops)"

text \<open>The sum over the five scoring columns, added to \<^verbatim>\<open>0.0\<close> from left to right.\<close>

definition sum_of_columns :: "'f float_ops \<Rightarrow> 'f row \<Rightarrow> 'f" where
  "sum_of_columns ops row =
     foldl (\<lambda>acc col. fadd ops acc (column_value ops row col)) (fzero ops)
       [KStr ''Dimensionality'', KStr ''Nonlinearity'', KStr ''Boundary'', KStr ''Time'',
        KStr ''Coupling'']"

text \<open>
  The examples of the specification compute with small whole numbers, on which binary
  floating point is exact: sums, differences, products and quotients of whole numbers
  up to 16 in absolute value are the floats of the exact results (a product or quotient
  that is zero only for operands that are not negative, since \<^verbatim>\<open>-1.0 * 0.0\<close> is the
  negative zero), squares do not overflow, only zero equals zero, none is NaN, and
  \<^verbatim>\<open>sum\<close> is exact.
\<close>

definition exact_on_small_ints :: "'f float_ops \<Rightarrow> bool" where
  "exact_on_small_ints ops \<longleftrightarrow>
     (\<forall>a b. \<bar>a\<bar> \<le> 16 \<and> \<bar>b\<bar> \<le> 16 \<longrightarrow>
        fadd ops (float_of_int ops a) (float_of_int ops b) = float_of_int ops (a + b) \<and>
        fsub ops (float_of_int ops a) (float_of_int ops b) = float_of_int ops (a - b) \<and>
        (0 < a * b \<or> (0 \<le> a \<and> 0 \<le> b) \<longrightarrow>
           fmul ops (float_of_int ops a) (float_of_int ops b) = float_of_int ops (a * b)) \<and>
        (0 \<le> a \<and> 0 < b \<and> b dvd a \<longrightarrow>
           fdiv ops (float_of_int ops a) (float_of_int ops b) = float_of_int ops (a div b))) \<and>
     (\<forall>a. \<bar>a\<bar> \<le> 16 \<longrightarrow>
        \<not> pow2_overflows ops (float_of_int ops a) \<and>
        fpow2 ops (float_of_int ops a) = float_of_int ops (a * a) \<and>
        (is_zero ops (float_of_int ops a) \<longleftrightarrow> a = 0) \<and>
        \<not> is_nan ops (float_of_int ops a)) \<and>
     (\<forall>as. as \<noteq> [] \<and> length as \<le> 16 \<and> (\<forall>a\<in>set as. 0 \<le> a \<and> a \<le> 16) \<longrightarrow>
        fsum ops (map (float_of_int ops) as) = float_of_int ops (sum_list as))"

text \<open>The cells of the specification's example row parse as Python parses them.\<close>

definition parses_example_cells :: "'f float_ops \<Rightarrow> bool" where
  "parses_example_cells ops \<longleftrightarrow>
     float_of_str ops ''0'' = Some (float_of_int ops 0) \<and>
     float_of_str ops ''1'' = Some (float_of_int ops 1) \<and>
     float_of_str ops ''2'' = Some (float_of_int ops 2) \<and>
     float_of_str ops ''abc'' = None"

definition example_row :: "'f row" where
  "example_row =
     [(KStr ''Dimensionality'', VStr ''2''), (KStr ''Nonlinearity'', VStr ''1''),
      (KStr ''Boundary'', VStr ''''), (KStr ''Time'', VStr ''0''),
      (KStr ''Coupling'', VStr ''abc'')]"

text \<open>
  A record after \<^verbatim>\<open>loop.py\<close> has processed it: \<^verbatim>\<open>Total_Score\<close> is the score, and
  \<^verbatim>\<open>L3_Error\<close> is replaced by its number when it parses as one. \<^verbatim>\<open>scorer.py\<close> sets
  \<^verbatim>\<open>Total_Score\<close> only.
\<close>

definition scored_row :: "'f float_ops \<Rightarrow> 'f row \<Rightarrow> 'f row" where
  "scored_row ops row =
     (let row1 = AList.update (KStr ''Total_Score'') (VFloat (sum_of_columns ops row)) row in
      case parse_float ops (py_get row (KStr ''L3_Error'')) None of
        None \<Rightarrow> row1
      | Some error \<Rightarrow> AList.update (KStr ''L3_Error'') (VFloat error) row1)"

definition scorer_scored_row :: "'f float_ops \<Rightarrow> 'f row \<Rightarrow> 'f row" where
  "scorer_scored_row ops row =
     AList.update (KStr ''Total_Score'') (VFloat (sum_of_columns ops row)) row"

text \<open>
  The output header for a list of column names: the names in their order, with
  \<^verbatim>\<open>Total_Score\<close> appended at the end if it is not among them.
\<close>

definition with_total_score :: "pykey list \<Rightarrow> pykey list" where
  "with_total_score keys =
     (if KStr ''Total_Score'' \<in> set keys then keys else keys @ [KStr ''Total_Score''])"

text \<open>The cells of a record under a header; a column the record lacks is an empty text.\<close>

definition row_cells :: "pykey list \<Rightarrow> 'f row \<Rightarrow> 'f pyval list" where
  "row_cells fieldnames row =
     map (\<lambda>k. case map_of row k of None \<Rightarrow> VStr [] | Some v \<Rightarrow> v) fieldnames"

text \<open>What a trace writes to the files: the headers, the rows, and whether it touches a file.\<close>

fun written_headers :: "'f event list \<Rightarrow> pykey list list" where
  "written_headers [] = []"
| "written_headers (WriteHeader fieldnames # es) = fieldnames # written_headers es"
| "written_headers (e # es) = written_headers es"

fun written_rows :: "'f event list \<Rightarrow> 'f pyval list list" where
  "written_rows [] = []"
| "written_rows (WriteRow cells # es) = cells # written_rows es"
| "written_rows (e # es) = written_rows es"

fun is_file_event :: "'f event \<Rightarrow> bool" where
  "is_file_event (Print msg) = False"
| "is_file_event (Subprocess m res) = False"
| "is_file_event e = True"

fun is_regression_event :: "'f event \<Rightarrow> bool" where
  "is_regression_event (OpenWrite RegressionTxt) = True"
| "is_regression_event (WriteRegression a b) = True"
| "is_regression_event (WriteUsed n) = True"
| "is_regression_event e = False"

text \<open>
  The regression of the specification: the mean, the sum of the squared deviations from
  the mean (undefined when a square overflows), the sum of the products of the deviations,
  and the slope and the intercept from these.
\<close>

definition mean :: "'f float_ops \<Rightarrow> 'f list \<Rightarrow> 'f" where
  "mean ops xs = fdiv ops (py_sum ops xs) (float_of_int ops (int (length xs)))"

definition sum_sq_dev :: "'f float_ops \<Rightarrow> 'f list \<Rightarrow> 'f option" where
  "sum_sq_dev ops xs =
     (if list_ex (\<lambda>x. pow2_overflows ops (fsub ops x (mean ops xs))) xs then None
      else Some (py_sum ops (map (\<lambda>x. fpow2 ops (fsub ops x (mean ops xs))) xs)))"

definition sum_cross_dev :: "'f float_ops \<Rightarrow> 'f list \<Rightarrow> 'f list \<Rightarrow> 'f" where
  "sum_cross_dev ops xs ys =
     py_sum ops
       (map (\<lambda>(x, y). fmul ops (fsub ops x (mean ops xs)) (fsub ops y (mean ops ys)))
          (zip xs ys))"

definition slope :: "'f float_ops \<Rightarrow> 'f list \<Rightarrow> 'f list \<Rightarrow> 'f \<Rightarrow> 'f" where
  "slope ops xs ys den = fdiv ops (sum_cross_dev ops xs ys) den"

definition intercept :: "'f float_ops \<Rightarrow> 'f list \<Rightarrow> 'f list \<Rightarrow> 'f \<Rightarrow> 'f" where
  "intercept ops xs ys a = fsub ops (mean ops ys) (fmul ops a (mean ops xs))"

text \<open>
  Notions for the trace of the loop over the records: the events of the trainer invoker,
  a trainer that exits with a status other than 0, how a result fails, and what holds of
  the trace of a part of the loop that ends with a given failure or none.
\<close>

fun is_trainer_event :: "'f event \<Rightarrow> bool" where
  "is_trainer_event (Print (MsgSkip name)) = True"
| "is_trainer_event (Print (MsgRunning name m)) = True"
| "is_trainer_event (Print (MsgDone name)) = True"
| "is_trainer_event (Subprocess m res) = True"
| "is_trainer_event e = False"

fun failed_trainer :: "'f event \<Rightarrow> bool" where
  "failed_trainer (Subprocess m (Exited status)) = (status \<noteq> 0)"
| "failed_trainer e = False"

definition failure :: "stop + 'a \<Rightarrow> stop option" where
  "failure r = (case r of Inl e \<Rightarrow> Some e | Inr a \<Rightarrow> None)"

definition loop_segment :: "'f event list \<Rightarrow> stop option \<Rightarrow> bool" where
  "loop_segment tr f \<longleftrightarrow>
     (\<forall>e\<in>set tr. is_trainer_event e) \<and>
     (\<forall>e\<in>set tr. failed_trainer e \<longrightarrow> f = Some (Raised CalledProcessError) \<and> last tr = e)"

text \<open>
  Conditions on a run, for the statements about a run that gets through: every call of
  a trainer started its process and the process exited with status 0; the \<^verbatim>\<open>TrainerModule\<close> of every record is text or
  \<^verbatim>\<open>None\<close>, as \<^verbatim>\<open>DictReader\<close> yields it; no record has a key outside the header that the
  first record gives; and no square overflows in the regression over the records.
\<close>

fun trainer_succeeded :: "'f event \<Rightarrow> bool" where
  "trainer_succeeded (Subprocess m res) = (res = Exited 0)"
| "trainer_succeeded e = True"

fun text_or_none :: "'f pyval \<Rightarrow> bool" where
  "text_or_none VNone = True"
| "text_or_none (VStr s) = True"
| "text_or_none v = False"

definition rectangular :: "'f row list \<Rightarrow> bool" where
  "rectangular rows \<longleftrightarrow>
     list_all (\<lambda>row. set (map fst row) \<subseteq> set (with_total_score (map fst (hd rows)))) rows"

definition regression_defined :: "'f float_ops \<Rightarrow> 'f row list \<Rightarrow> bool" where
  "regression_defined ops rows \<longleftrightarrow>
     (let xs = fst (collect_points ops (map (scored_row ops) rows))
      in xs = [] \<or> sum_sq_dev ops xs \<noteq> None)"

section \<open>An interpretation to evaluate the model\<close>

text \<open>
  Exact rational arithmetic, with texts of decimal digits as the numbers that parse: an
  interpretation of the float operations in which the model runs on concrete inputs. It
  is exact on small whole numbers, as binary floating point is.
\<close>

definition digit_value :: "char \<Rightarrow> nat option" where
  "digit_value c =
     (let n = of_char c :: nat in if 48 \<le> n \<and> n \<le> 57 then Some (n - 48) else None)"

fun parse_digits :: "string \<Rightarrow> nat \<Rightarrow> nat option" where
  "parse_digits [] acc = Some acc"
| "parse_digits (c # cs) acc =
     (case digit_value c of None \<Rightarrow> None | Some d \<Rightarrow> parse_digits cs (10 * acc + d))"

definition exact_ops :: "rat float_ops" where
  "exact_ops =
     \<lparr>float_of_str = (\<lambda>s. if s = [] then None else map_option of_nat (parse_digits s 0)),
      float_of_int = of_int,
      fadd = (+), fsub = (-), fmul = (*), fdiv = (/),
      fpow2 = (\<lambda>x. x * x),
      pow2_overflows = (\<lambda>x. False),
      fsum = sum_list,
      is_zero = (\<lambda>x. x = 0),
      is_nan = (\<lambda>x. False)\<rparr>"

text \<open>
  A trainer world for the examples: the module \<^verbatim>\<open>fail\<close> exits with status 1, the module
  \<^verbatim>\<open>hang\<close> never exits, every other module exits with status 0; the world counts the
  processes run.
\<close>

definition example_run :: "string \<Rightarrow> nat \<Rightarrow> proc_result \<times> nat" where
  "example_run m w =
     (if m = ''fail'' then (Exited 1, Suc w)
      else if m = ''hang'' then (Hangs, Suc w)
      else (Exited 0, Suc w))"

text \<open>
  Input tables for the examples: three records of which the second names the trainer
  that fails; two records with no trainer, the second with a surplus cell (the line
  \<^verbatim>\<open>2,3\<close> under the header \<^verbatim>\<open>a\<close>); and two records with no trainer and the same columns,
  the second with an error that parses.
\<close>

definition failing_table :: "rat row list" where
  "failing_table =
     [[(KStr ''Name'', VStr ''heat''), (KStr ''TrainerModule'', VStr ''ok'')],
      [(KStr ''Name'', VStr ''wave''), (KStr ''TrainerModule'', VStr ''fail'')],
      [(KStr ''Name'', VStr ''burgers''), (KStr ''TrainerModule'', VStr ''ok'')]]"

definition ragged_table :: "rat row list" where
  "ragged_table =
     [[(KStr ''a'', VStr ''1'')],
      [(KStr ''a'', VStr ''2''), (KNone, VList [''3''])]]"

definition plain_table :: "rat row list" where
  "plain_table =
     [[(KStr ''Name'', VStr ''heat''), (KStr ''Time'', VStr ''1''), (KStr ''L3_Error'', VStr '''')],
      [(KStr ''Name'', VStr ''wave''), (KStr ''Time'', VStr ''x''), (KStr ''L3_Error'', VStr ''2'')]]"

definition flat_table :: "rat row list" where
  "flat_table =
     [[(KStr ''Time'', VStr ''1''), (KStr ''L3_Error'', VStr ''1'')],
      [(KStr ''Time'', VStr ''1''), (KStr ''L3_Error'', VStr ''2'')]]"

definition line_table :: "rat row list" where
  "line_table =
     [[(KStr ''Time'', VStr ''1''), (KStr ''L3_Error'', VStr ''2'')],
      [(KStr ''Time'', VStr ''2''), (KStr ''L3_Error'', VStr ''4'')],
      [(KStr ''Time'', VStr ''3''), (KStr ''L3_Error'', VStr ''6'')]]"

text \<open>
  Two more tables for the examples: two records whose trainers are launched and exit
  with status 0 (the module of the second is written with a leading blank), and one
  record whose module name holds a NUL character.
\<close>

definition trained_table :: "rat row list" where
  "trained_table =
     [[(KStr ''Name'', VStr ''heat''), (KStr ''TrainerModule'', VStr ''ok''),
       (KStr ''Time'', VStr ''1''), (KStr ''L3_Error'', VStr '''')],
      [(KStr ''Name'', VStr ''wave''), (KStr ''TrainerModule'', VStr '' train.wave''),
       (KStr ''Time'', VStr ''x''), (KStr ''L3_Error'', VStr ''2'')]]"

definition nul_table :: "rat row list" where
  "nul_table =
     [[(KStr ''Name'', VStr ''heat''),
       (KStr ''TrainerModule'', VStr [CHR ''a'', CHR 0x00, CHR ''b''])]]"

section \<open>Binary floating point\<close>

text \<open>
  The floats of CPython are IEEE 754 binary64 numbers, and its arithmetic rounds the exact
  result to the nearest of them, to the one with the even significand on a tie. The finite
  binary64 numbers are the rationals \<open>m * 2^e\<close> with \<open>\<bar>m\<bar> < 2^53\<close> and \<open>- 1074 \<le> e\<close>, below
  \<open>2^1024\<close> in absolute value.

  \<open>normalise n q e\<close> scales a positive \<open>q\<close> by powers of two (in steps of 64, 8 and 1
  binary places, at most \<open>n\<close> of them), keeping \<open>q * 2^e\<close>, until \<open>2^52 \<le> q < 2^53\<close> or,
  for a number in the subnormal range, \<open>e = - 1074\<close>; 200 steps suffice for every number
  between \<open>2^(-4000)\<close> and \<open>2^4000\<close>. \<open>round_half_even\<close> rounds to the nearest integer,
  to the even one on a tie. \<open>to_double x\<close> is then the number \<open>m * 2^e\<close> nearest to \<open>x\<close>,
  with the exponent unbounded above: a result of \<open>2^1024\<close> or more is what IEEE arithmetic
  calls an overflow.
\<close>

fun normalise :: "nat \<Rightarrow> rat \<Rightarrow> int \<Rightarrow> rat \<times> int" where
  "normalise 0 q e = (q, e)"
| "normalise (Suc n) q e =
     (if 2 ^ 117 \<le> q then normalise n (q / 2 ^ 64) (e + 64)
      else if 2 ^ 61 \<le> q then normalise n (q / 2 ^ 8) (e + 8)
      else if 2 ^ 53 \<le> q then normalise n (q / 2) (e + 1)
      else if q < 1 / 2 ^ 12 \<and> - 1010 < e then normalise n (q * 2 ^ 64) (e - 64)
      else if q < 2 ^ 44 \<and> - 1066 < e then normalise n (q * 2 ^ 8) (e - 8)
      else if q < 2 ^ 52 \<and> - 1074 < e then normalise n (q * 2) (e - 1)
      else (q, e))"

definition round_half_even :: "rat \<Rightarrow> int" where
  "round_half_even q =
     (if q - of_int \<lfloor>q\<rfloor> < 1 / 2 then \<lfloor>q\<rfloor>
      else if 1 / 2 < q - of_int \<lfloor>q\<rfloor> then \<lfloor>q\<rfloor> + 1
      else if even \<lfloor>q\<rfloor> then \<lfloor>q\<rfloor>
      else \<lfloor>q\<rfloor> + 1)"

definition to_double :: "rat \<Rightarrow> rat" where
  "to_double x =
     (if x = 0 then 0
      else
        (case normalise 200 \<bar>x\<bar> 0 of
           (q, e) \<Rightarrow>
             sgn x * of_int (round_half_even q)
               * (if 0 \<le> e then 2 ^ nat e else 1 / 2 ^ nat (- e))))"

text \<open>
  The texts of decimal digits with at most one point and at least one digit, as
  \<^verbatim>\<open>float\<close> reads them (it reads more: signs, exponents, underscores between digits,
  blanks around the number, \<^verbatim>\<open>inf\<close> and \<^verbatim>\<open>nan\<close>, which the examples do not use).
\<close>

fun parse_fraction :: "string \<Rightarrow> rat \<Rightarrow> rat \<Rightarrow> rat option" where
  "parse_fraction [] v w = Some v"
| "parse_fraction (c # cs) v w =
     (case digit_value c of
        None \<Rightarrow> None
      | Some d \<Rightarrow> parse_fraction cs (v + of_nat d * w) (w / 10))"

fun parse_decimal :: "string \<Rightarrow> nat \<Rightarrow> rat option" where
  "parse_decimal [] acc = Some (of_nat acc)"
| "parse_decimal (c # cs) acc =
     (if c = CHR ''.'' then parse_fraction cs (of_nat acc) (1 / 10)
      else case digit_value c of
             None \<Rightarrow> None
           | Some d \<Rightarrow> parse_decimal cs (10 * acc + d))"

text \<open>
  The float operations of CPython on the finite binary64 numbers, for as long as no
  conversion, sum, difference, product or quotient overflows: each is the exact operation
  followed by the rounding; \<^verbatim>\<open>x ** 2\<close> is the rounded square, and raises
  \<^verbatim>\<open>OverflowError\<close> when that is \<open>2^1024\<close> or more; \<^verbatim>\<open>sum\<close> adds from the left, starting
  from \<^verbatim>\<open>0\<close> (from version 3.12 on it carries a correction term, with which it returns
  the same floats on the lists of the examples). There is no NaN among the finite numbers.
\<close>

definition double_ops :: "rat float_ops" where
  "double_ops =
     \<lparr>float_of_str =
        (\<lambda>s. if s = [] \<or> s = ''.'' then None else map_option to_double (parse_decimal s 0)),
      float_of_int = (\<lambda>i. to_double (of_int i)),
      fadd = (\<lambda>x y. to_double (x + y)),
      fsub = (\<lambda>x y. to_double (x - y)),
      fmul = (\<lambda>x y. to_double (x * y)),
      fdiv = (\<lambda>x y. to_double (x / y)),
      fpow2 = (\<lambda>x. to_double (x * x)),
      pow2_overflows = (\<lambda>x. 2 ^ 1024 \<le> to_double (x * x)),
      fsum = foldl (\<lambda>s x. to_double (s + x)) 0,
      is_zero = (\<lambda>x. x = 0),
      is_nan = (\<lambda>x. False)\<rparr>"

text \<open>
  The floats \<^verbatim>\<open>0.1\<close>, \<^verbatim>\<open>1e200\<close> and \<^verbatim>\<open>2.1e201\<close>, and a table of three records with the same
  score \<^verbatim>\<open>0.1\<close> and the errors 1, 2 and 3.
\<close>

definition tenth :: rat where
  "tenth = 3602879701896397 / 36028797018963968"

definition huge :: rat where
  "huge = float_of_int double_ops (10 ^ 200)"

definition huge21 :: rat where
  "huge21 = float_of_int double_ops (21 * 10 ^ 200)"

definition tenth_table :: "rat row list" where
  "tenth_table =
     [[(KStr ''Dimensionality'', VStr ''0.1''), (KStr ''L3_Error'', VStr ''1'')],
      [(KStr ''Dimensionality'', VStr ''0.1''), (KStr ''L3_Error'', VStr ''2'')],
      [(KStr ''Dimensionality'', VStr ''0.1''), (KStr ''L3_Error'', VStr ''3'')]]"

section \<open>The interpretation is exact on small whole numbers\<close>

lemma sum_list_of_int_rat: "sum_list (map of_int as) = (of_int (sum_list as) :: rat)"
  by (induction as) simp_all

lemma exact_ops_small: "exact_on_small_ints exact_ops"
  unfolding exact_on_small_ints_def exact_ops_def
  by (auto simp: sum_list_of_int_rat)

lemma exact_ops_parses: "parses_example_cells exact_ops"
  by (simp add: parses_example_cells_def exact_ops_def digit_value_def)

section \<open>Scoring\<close>

lemma py_float_raises: "py_float ops v = Inl e \<Longrightarrow> e = TypeError \<or> e = ValueError"
  by (auto simp: py_float_def split: pyval.splits if_splits option.splits)

lemma parse_float_column:
  "parse_float ops (py_get row col) (Some (fzero ops)) = Some (column_value ops row col)"
  by (simp add: parse_float_def py_get_def py_float_def column_value_def
      split: option.split pyval.split)

lemma scorer_parse_float_column:
  "scorer_parse_float ops (py_get_default row col (VInt 0)) = column_value ops row col"
  by (simp add: scorer_parse_float_def py_get_default_def py_float_def column_value_def
      fzero_def split: option.split pyval.split)

lemma score_loop_foldl:
  "score_loop ops row cols tot =
     Inr (foldl (\<lambda>acc col. fadd ops acc (column_value ops row col)) tot cols)"
  by (induction cols arbitrary: tot) (simp_all add: parse_float_column)

lemma scorer_score_loop_foldl:
  "scorer_score_loop ops row cols tot =
     foldl (\<lambda>acc col. fadd ops acc (column_value ops row col)) tot cols"
  by (induction cols arbitrary: tot) (simp_all add: scorer_parse_float_column)

lemma compute_total_score_sum: "compute_total_score ops row = Inr (sum_of_columns ops row)"
  by (simp add: compute_total_score_def SCORING_COLUMNS_def sum_of_columns_def
      score_loop_foldl)

lemma scorer_compute_total_score_sum:
  "scorer_compute_total_score ops row = sum_of_columns ops row"
  by (simp add: scorer_compute_total_score_def COLUMNS_FOR_SCORING_def sum_of_columns_def
      scorer_score_loop_foldl)

lemma sum_of_columns_example:
  assumes "exact_on_small_ints ops" and "parses_example_cells ops"
  shows "sum_of_columns ops example_row = float_of_int ops 3"
proof -
  have add: "\<And>a b. \<bar>a\<bar> \<le> 16 \<Longrightarrow> \<bar>b\<bar> \<le> 16 \<Longrightarrow>
      fadd ops (float_of_int ops a) (float_of_int ops b) = float_of_int ops (a + b)"
    using assms(1) unfolding exact_on_small_ints_def by blast
  have cells: "float_of_str ops ''0'' = Some (float_of_int ops 0)"
      "float_of_str ops ''1'' = Some (float_of_int ops 1)"
      "float_of_str ops ''2'' = Some (float_of_int ops 2)"
      "float_of_str ops ''abc'' = None"
    using assms(2) unfolding parses_example_cells_def by blast+
  show ?thesis
    by (simp add: sum_of_columns_def example_row_def column_value_def fzero_def cells add)
qed

text \<open>
  C1. For every row, the score that \<^verbatim>\<open>compute_total_score\<close> returns, in \<^verbatim>\<open>loop.py\<close> and in
  \<^verbatim>\<open>scorer.py\<close>, is the sum over the five scoring columns of the column's value parsed as
  a number, where a missing key, an empty text and a text that is not a number count as
  \<^verbatim>\<open>0.0\<close>; the function never raises. On the row with \<^verbatim>\<open>Dimensionality=2\<close>,
  \<^verbatim>\<open>Nonlinearity=1\<close>, an empty \<^verbatim>\<open>Boundary\<close>, \<^verbatim>\<open>Time=0\<close> and \<^verbatim>\<open>Coupling=abc\<close> the score is
  \<^verbatim>\<open>3.0\<close>, for float operations that are exact on small whole numbers.
\<close>

theorem total_score_is_sum_of_columns:
  "compute_total_score ops row = Inr (sum_of_columns ops row) \<and>
   scorer_compute_total_score ops row = sum_of_columns ops row \<and>
   (exact_on_small_ints ops \<and> parses_example_cells ops \<longrightarrow>
      compute_total_score ops example_row = Inr (float_of_int ops 3) \<and>
      scorer_compute_total_score ops example_row = float_of_int ops 3)"
  by (simp add: compute_total_score_sum scorer_compute_total_score_sum
      sum_of_columns_example)

theorem total_score_is_sum_of_columns_witness:
  "exact_on_small_ints exact_ops \<and> parses_example_cells exact_ops \<and>
   compute_total_score exact_ops example_row = Inr 3 \<and>
   scorer_compute_total_score exact_ops example_row = 3 \<and>
   sum_of_columns exact_ops example_row = 3"
  using total_score_is_sum_of_columns [of exact_ops example_row]
    exact_ops_small exact_ops_parses
  by (simp add: exact_ops_def)

text \<open>
  C9. The scoring functions of \<^verbatim>\<open>loop.py\<close> and of \<^verbatim>\<open>scorer.py\<close> return the same score on
  every row, and already the same number for every column: \<^verbatim>\<open>loop.py\<close> falls back on its
  default \<^verbatim>\<open>0.0\<close> for a missing or empty value, \<^verbatim>\<open>scorer.py\<close> parses the \<^verbatim>\<open>0\<close> it
  substitutes for a missing key and catches the failure on an empty text.
\<close>

theorem scorers_agree:
  "compute_total_score ops row = Inr (scorer_compute_total_score ops row) \<and>
   parse_float ops (py_get row col) (Some (fzero ops)) =
     Some (scorer_parse_float ops (py_get_default row col (VInt 0)))"
  by (simp add: compute_total_score_sum scorer_compute_total_score_sum
      parse_float_column scorer_parse_float_column)

section \<open>The trainer invoker\<close>

lemma py_strip_whitespace: "\<forall>c\<in>set s. py_isspace c \<Longrightarrow> py_strip s = []"
  by (auto simp: py_strip_def dest: set_dropWhileD)

lemma run_trainer_skip:
  assumes "py_get row (KStr ''TrainerModule'') = VNone \<or>
           (\<exists>s. py_get row (KStr ''TrainerModule'') = VStr s \<and> (\<forall>c\<in>set s. py_isspace c))"
  shows "run_trainer_for_row ops run row st =
           (Inr (),
            emit (Print (MsgSkip (py_get_default row (KStr ''Name'') (VStr ''UNKNOWN'')))) st)"
proof -
  let ?v = "py_get row (KStr ''TrainerModule'')"
  have "\<exists>s. (if truthy ops ?v then ?v else VStr []) = VStr s \<and> py_strip s = []"
  proof (cases ?v)
    case (VStr s)
    with assms have "py_strip s = []"
      by (auto intro: py_strip_whitespace)
    with VStr show ?thesis
      by (simp add: truthy_def py_strip_def)
  qed (use assms in \<open>simp_all add: truthy_def py_strip_def\<close>)
  then show ?thesis
    by (auto simp: run_trainer_for_row_def Let_def)
qed

text \<open>
  C5. For a record whose \<^verbatim>\<open>TrainerModule\<close> is absent (no such key, or the value \<^verbatim>\<open>None\<close> of a
  short row) or the empty text, \<^verbatim>\<open>run_trainer_for_row\<close> returns normally, leaves the world
  as it is and adds one event to the trace, the skip message: no subprocess is run,
  nothing blocks and nothing is raised.
\<close>

theorem empty_trainer_module_skips:
  assumes "py_get row (KStr ''TrainerModule'') = VNone \<or>
           py_get row (KStr ''TrainerModule'') = VStr ''''"
  shows "run_trainer_for_row ops run row st =
           (Inr (),
            st\<lparr>trace := trace st @
               [Print (MsgSkip (py_get_default row (KStr ''Name'') (VStr ''UNKNOWN'')))]\<rparr>)"
  using assms run_trainer_skip [of row ops run st] by (auto simp: emit_def)

theorem empty_trainer_module_skips_witness:
  "py_get [(KStr ''Name'', VStr ''heat''), (KStr ''TrainerModule'', VStr '''')]
      (KStr ''TrainerModule'') = (VStr '''' :: rat pyval) \<and>
   run_trainer_for_row exact_ops example_run
      [(KStr ''Name'', VStr ''heat''), (KStr ''TrainerModule'', VStr '''')]
      \<lparr>trace = [], world = 0\<rparr> =
     (Inr (), \<lparr>trace = [Print (MsgSkip (VStr ''heat''))], world = 0\<rparr>)"
  using empty_trainer_module_skips
    [of "[(KStr ''Name'', VStr ''heat''), (KStr ''TrainerModule'', VStr '''')]"
        exact_ops example_run "\<lparr>trace = [], world = 0\<rparr>"]
  by (simp add: py_get_def py_get_default_def)

text \<open>
  C10. A \<^verbatim>\<open>TrainerModule\<close> that consists of whitespace only is stripped to the empty text
  before the test, so the record is skipped as one with no trainer: the skip message is
  the only event, the world is unchanged, no subprocess is run.
\<close>

theorem whitespace_trainer_module_skips:
  assumes "py_get row (KStr ''TrainerModule'') = VStr s" and "\<forall>c\<in>set s. py_isspace c"
  shows "run_trainer_for_row ops run row st =
           (Inr (),
            st\<lparr>trace := trace st @
               [Print (MsgSkip (py_get_default row (KStr ''Name'') (VStr ''UNKNOWN'')))]\<rparr>)"
  using assms run_trainer_skip [of row ops run st] by (auto simp: emit_def)

theorem whitespace_trainer_module_skips_witness:
  "py_get [(KStr ''TrainerModule'', VStr [CHR '' '', CHR 0x09, CHR '' ''])]
      (KStr ''TrainerModule'') = (VStr [CHR '' '', CHR 0x09, CHR '' ''] :: rat pyval) \<and>
   list_all py_isspace [CHR '' '', CHR 0x09, CHR '' ''] \<and>
   run_trainer_for_row exact_ops example_run
      [(KStr ''TrainerModule'', VStr [CHR '' '', CHR 0x09, CHR '' ''])]
      \<lparr>trace = [], world = 0\<rparr> =
     (Inr (), \<lparr>trace = [Print (MsgSkip (VStr ''UNKNOWN''))], world = 0\<rparr>)"
  using whitespace_trainer_module_skips
    [of "[(KStr ''TrainerModule'', VStr [CHR '' '', CHR 0x09, CHR '' ''])]"
        "[CHR '' '', CHR 0x09, CHR '' '']" exact_ops example_run "\<lparr>trace = [], world = 0\<rparr>"]
  by (simp add: py_get_def py_get_default_def py_isspace_def)

section \<open>Regression\<close>

lemma linear_regression_None_iff:
  "(linear_regression ops xs ys = Inr None) =
     (xs = [] \<or> (\<exists>d. sum_sq_dev ops xs = Some d \<and> is_zero ops d))"
  by (auto simp: linear_regression_def sum_sq_dev_def mean_def Let_def)

lemma linear_regression_Some:
  assumes "length xs = length ys" and "xs \<noteq> []"
    and "sum_sq_dev ops xs = Some d" and "\<not> is_zero ops d"
  shows "linear_regression ops xs ys =
           Inr (Some (slope ops xs ys d, intercept ops xs ys (slope ops xs ys d)))"
  using assms
  by (auto simp: linear_regression_def sum_sq_dev_def sum_cross_dev_def slope_def
      intercept_def mean_def Let_def split: if_splits)

section \<open>The loop over the records\<close>

lemma failure_simps [simp]: "failure (Inl e) = Some e" "failure (Inr a) = None"
  by (simp_all add: failure_def)

lemma run_trainer_segment:
  assumes "run_trainer_for_row ops run row st = (r, st')"
  shows "\<exists>tr. trace st' = trace st @ tr \<and> loop_segment tr (failure r)"
proof (cases "if truthy ops (py_get row (KStr ''TrainerModule'')) then py_get row (KStr ''TrainerModule'') else VStr []")
  case (VStr s)
  show ?thesis
  proof (cases "py_strip s = []")
    case True
    with VStr assms show ?thesis
      by (auto simp: run_trainer_for_row_def Let_def emit_def loop_segment_def)
  next
    case False
    with VStr assms show ?thesis
      by (auto simp: run_trainer_for_row_def Let_def emit_def loop_segment_def
          split: prod.splits proc_result.splits if_splits)
  qed
qed (use assms in \<open>auto simp: run_trainer_for_row_def Let_def loop_segment_def\<close>)

lemma loop_segment_append:
  assumes "loop_segment tr1 None" and "loop_segment tr2 f"
  shows "loop_segment (tr1 @ tr2) f"
  using assms unfolding loop_segment_def by (auto simp: last_append)

lemma main_loop_segment:
  "main_loop ops run rows st = (r, st') \<Longrightarrow>
     \<exists>tr. trace st' = trace st @ tr \<and> loop_segment tr (failure r)"
proof (induction rows arbitrary: st r st')
  case Nil
  then show ?case by (auto simp: loop_segment_def)
next
  case (Cons row rest)
  obtain total_score where ts: "compute_total_score ops row = Inr total_score"
    by (simp add: compute_total_score_sum)
  let ?row1 = "AList.update (KStr ''Total_Score'') (VFloat total_score) row"
  obtain r1 st1 where rt: "run_trainer_for_row ops run ?row1 st = (r1, st1)"
    by (cases "run_trainer_for_row ops run ?row1 st")
  from run_trainer_segment [OF rt] obtain tr1 where
    tr1: "trace st1 = trace st @ tr1" "loop_segment tr1 (failure r1)" by blast
  show ?case
  proof (cases r1)
    case (Inl e)
    with Cons.prems ts rt have "r = Inl e" "st' = st1" by simp_all
    with tr1 Inl show ?thesis by auto
  next
    case (Inr u)
    obtain r2 st2 where ml: "main_loop ops run rest st1 = (r2, st2)"
      by (cases "main_loop ops run rest st1")
    from Cons.IH [OF ml] obtain tr2 where
      tr2: "trace st2 = trace st1 @ tr2" "loop_segment tr2 (failure r2)" by blast
    from Cons.prems ts rt Inr ml have "st' = st2" "failure r = failure r2"
      by (auto simp: Let_def split: sum.splits)
    with tr1 tr2 Inr show ?thesis
      by (auto intro: loop_segment_append)
  qed
qed

lemma main_loop_rows:
  "main_loop ops run rows st = (Inr rows', st') \<Longrightarrow> rows' = map (scored_row ops) rows"
proof (induction rows arbitrary: st rows' st')
  case Nil
  then show ?case by simp
next
  case (Cons row rest)
  have g: "get_error_for_row ops (AList.update (KStr ''Total_Score'') v row)
             = parse_float ops (py_get row (KStr ''L3_Error'')) None" for v
    by (simp add: get_error_for_row_def py_get_def update_conv')
  from Cons.prems show ?case
    by (auto simp: compute_total_score_sum Let_def scored_row_def g
        split: prod.splits sum.splits dest: Cons.IH)
qed

section \<open>The writer and the regression stage\<close>

lemma dict_to_list_cases:
  "dict_to_list fns row =
     (if set (map fst row) \<subseteq> set fns then Inr (row_cells fns row) else Inl ValueError)"
  by (auto simp: dict_to_list_def row_cells_def py_get_default_def list_ex_iff)

lemma writerows_trace:
  "writerows fns rs st = (r, st') \<Longrightarrow>
     \<exists>n\<le>length rs.
        trace st' = trace st @ map (\<lambda>row. WriteRow (row_cells fns row)) (take n rs) \<and>
        world st' = world st \<and>
        (r = Inr () \<and> n = length rs \<or>
         r = Inl (Raised ValueError) \<and> n < length rs \<and> \<not> set (map fst (rs ! n)) \<subseteq> set fns) \<and>
        (\<forall>i<n. set (map fst (rs ! i)) \<subseteq> set fns)"
proof (induction rs arbitrary: st)
  case Nil
  then show ?case by auto
next
  case (Cons row rest)
  show ?case
  proof (cases "set (map fst row) \<subseteq> set fns")
    case False
    with Cons.prems have "r = Inl (Raised ValueError)" "st' = st"
      by (simp_all add: dict_to_list_cases)
    with False show ?thesis
      by (intro exI [of _ 0]) simp
  next
    case True
    with Cons.prems have
      "writerows fns rest (emit (WriteRow (row_cells fns row)) st) = (r, st')"
      by (simp add: dict_to_list_cases)
    from Cons.IH [OF this] obtain n where n: "n \<le> length rest"
      "trace st' = trace (emit (WriteRow (row_cells fns row)) st)
          @ map (\<lambda>row. WriteRow (row_cells fns row)) (take n rest)"
      "world st' = world (emit (WriteRow (row_cells fns row)) st)"
      "r = Inr () \<and> n = length rest \<or>
         r = Inl (Raised ValueError) \<and> n < length rest \<and> \<not> set (map fst (rest ! n)) \<subseteq> set fns"
      "\<forall>i<n. set (map fst (rest ! i)) \<subseteq> set fns"
      by blast
    have "\<forall>i<Suc n. set (map fst ((row # rest) ! i)) \<subseteq> set fns"
      using True n(5) by (auto simp: nth_Cons split: nat.splits)
    with n(1-4) show ?thesis
      by (intro exI [of _ "Suc n"]) (auto simp: emit_def)
  qed
qed

lemma write_results_trace:
  assumes "write_results (r0 # rest) st = (r, st')"
  defines "fns \<equiv> with_total_score (map fst r0)"
  shows "\<exists>n\<le>length (r0 # rest).
        trace st' = trace st @ [OpenWrite ResultsCsv, WriteHeader fns]
           @ map (\<lambda>row. WriteRow (row_cells fns row)) (take n (r0 # rest))
           @ (if r = Inr () then [Print MsgWrote] else []) \<and>
        world st' = world st \<and>
        (r = Inr () \<and> n = length (r0 # rest) \<or>
         r = Inl (Raised ValueError) \<and> n < length (r0 # rest) \<and>
           \<not> set (map fst ((r0 # rest) ! n)) \<subseteq> set fns) \<and>
        (\<forall>i<n. set (map fst ((r0 # rest) ! i)) \<subseteq> set fns)"
proof -
  let ?st1 = "emit (WriteHeader fns) (emit (OpenWrite ResultsCsv) st)"
  obtain r1 st1 where w: "writerows fns (r0 # rest) ?st1 = (r1, st1)"
    by (cases "writerows fns (r0 # rest) ?st1")
  have f: "(if KStr ''Total_Score'' \<notin> set (map fst r0) then map fst r0 @ [KStr ''Total_Score'']
            else map fst r0) = fns"
    by (simp add: fns_def with_total_score_def)
  from assms(1) w have r: "r = r1"
    and st': "st' = (if r1 = Inr () then emit (Print MsgWrote) st1 else st1)"
    unfolding write_results_def Let_def f list.case
    by (auto split: sum.splits)
  from writerows_trace [OF w] obtain n where n: "n \<le> length (r0 # rest)"
      "trace st1 = trace ?st1 @ map (\<lambda>row. WriteRow (row_cells fns row)) (take n (r0 # rest))"
      "world st1 = world ?st1"
      "r1 = Inr () \<and> n = length (r0 # rest) \<or>
         r1 = Inl (Raised ValueError) \<and> n < length (r0 # rest) \<and>
           \<not> set (map fst ((r0 # rest) ! n)) \<subseteq> set fns"
      "\<forall>i<n. set (map fst ((r0 # rest) ! i)) \<subseteq> set fns"
    by blast
  show ?thesis
    using n r st' by (intro exI [of _ n]) (auto simp: emit_def)
qed

lemma regression_stage_trace:
  assumes "regression_stage ops rows st = (r, st')"
  shows "\<exists>tr. trace st' = trace st @ tr \<and> world st' = world st \<and>
           (\<forall>e\<in>set tr. \<not> is_trainer_event e \<and> e \<noteq> Print MsgWrote \<and>
              written_rows [e] = [] \<and> written_headers [e] = [])"
  using assms
  by (auto simp: regression_stage_def emit_def split: prod.splits sum.splits option.splits)

lemma regression_stage_None:
  assumes "collect_points ops rows = (xs, ys)" and "linear_regression ops xs ys = Inr None"
  shows "regression_stage ops rows st = (Inr (), st\<lparr>trace := trace st @ [Print MsgNotEnough]\<rparr>)"
  using assms by (simp add: regression_stage_def emit_def)

lemma regression_stage_Some:
  assumes "collect_points ops rows = (xs, ys)"
    and "linear_regression ops xs ys = Inr (Some (a, b))"
  shows "regression_stage ops rows st =
           (Inr (),
            st\<lparr>trace := trace st @
               [Print (MsgRegression a b), OpenWrite RegressionTxt, WriteRegression a b,
                WriteUsed (length xs), Print MsgSaved]\<rparr>)"
  using assms by (simp add: regression_stage_def emit_def)

section \<open>The run of the pipeline\<close>

lemma with_total_score_idem [simp]:
  "with_total_score (with_total_score keys) = with_total_score keys"
  by (simp add: with_total_score_def)

lemma keys_scored_row: "map fst (scored_row ops row) = with_total_score (map fst row)"
proof -
  let ?row1 = "AList.update (KStr ''Total_Score'') (VFloat (sum_of_columns ops row)) row"
  have k1: "map fst ?row1 = with_total_score (map fst row)"
    by (simp add: update_keys with_total_score_def)
  show ?thesis
  proof (cases "parse_float ops (py_get row (KStr ''L3_Error'')) None")
    case None
    then show ?thesis by (simp add: scored_row_def k1)
  next
    case (Some error)
    then have "map_of row (KStr ''L3_Error'') \<noteq> None"
      by (auto simp: parse_float_def py_get_def split: option.splits if_splits)
    then have "KStr ''L3_Error'' \<in> fst ` set row"
      by (simp add: map_of_eq_None_iff)
    then have "KStr ''L3_Error'' \<in> set (map fst ?row1)"
      by (simp add: k1 with_total_score_def)
    then have "map fst (AList.update (KStr ''L3_Error'') (VFloat error) ?row1) = map fst ?row1"
      by (simp only: update_keys if_True)
    with Some show ?thesis by (simp add: scored_row_def k1)
  qed
qed

lemma main_run:
  assumes m: "main ops run (Some rows) w = (r, st)" and ne: "rows \<noteq> []"
  defines "fns \<equiv> with_total_score (map fst (hd rows))"
    and "rows' \<equiv> map (scored_row ops) rows"
  shows "\<exists>tr.
     (\<exists>e. r = Inl e \<and> loop_segment tr (Some e) \<and>
          trace st = Print (MsgLoaded (length rows)) # tr \<and>
          main_loop ops run rows
            (emit (Print (MsgLoaded (length rows))) \<lparr>trace = [], world = w\<rparr>) = (Inl e, st)) \<or>
     (\<exists>n<length rows. r = Inl (Raised ValueError) \<and> loop_segment tr None \<and>
          trace st = Print (MsgLoaded (length rows)) # tr
             @ [OpenWrite ResultsCsv, WriteHeader fns]
             @ map (\<lambda>row. WriteRow (row_cells fns row)) (take n rows') \<and>
          \<not> set (map fst (rows' ! n)) \<subseteq> set fns \<and>
          (\<forall>i<n. set (map fst (rows' ! i)) \<subseteq> set fns)) \<or>
     (\<exists>st2. loop_segment tr None \<and>
          trace st2 = Print (MsgLoaded (length rows)) # tr
             @ [OpenWrite ResultsCsv, WriteHeader fns]
             @ map (\<lambda>row. WriteRow (row_cells fns row)) rows' @ [Print MsgWrote] \<and>
          (\<forall>row\<in>set rows'. set (map fst row) \<subseteq> set fns) \<and>
          regression_stage ops rows' st2 = (r, st))"
proof -
  let ?st0 = "emit (Print (MsgLoaded (length rows))) \<lparr>trace = [], world = w\<rparr>"
  obtain r0 rest where rows: "rows = r0 # rest"
    using ne by (cases rows) auto
  obtain r1 st1 where ml: "main_loop ops run rows ?st0 = (r1, st1)"
    by (cases "main_loop ops run rows ?st0")
  from main_loop_segment [OF ml] obtain tr where
    tr: "trace st1 = Print (MsgLoaded (length rows)) # tr" "loop_segment tr (failure r1)"
    by (auto simp: emit_def)
  show ?thesis
  proof (cases r1)
    case (Inl e)
    with m ml ne have "r = Inl e" "st = st1"
      by (simp_all add: main_def)
    with tr Inl ml show ?thesis by auto
  next
    case (Inr rows'')
    with ml have rows'': "rows'' = rows'"
      by (simp add: rows'_def main_loop_rows)
    have rows'_cons: "rows' = scored_row ops r0 # map (scored_row ops) rest"
      by (simp add: rows'_def rows)
    have fns': "with_total_score (map fst (scored_row ops r0)) = fns"
      by (simp add: keys_scored_row fns_def rows)
    obtain r2 st2 where wr: "write_results rows' st1 = (r2, st2)"
      by (cases "write_results rows' st1")
    from write_results_trace [OF wr [unfolded rows'_cons], unfolded fns', folded rows'_cons]
    obtain n where n: "n \<le> length rows'"
      "trace st2 = trace st1 @ [OpenWrite ResultsCsv, WriteHeader fns]
           @ map (\<lambda>row. WriteRow (row_cells fns row)) (take n rows')
           @ (if r2 = Inr () then [Print MsgWrote] else [])"
      "r2 = Inr () \<and> n = length rows' \<or>
         r2 = Inl (Raised ValueError) \<and> n < length rows' \<and>
           \<not> set (map fst (rows' ! n)) \<subseteq> set fns"
      "\<forall>i<n. set (map fst (rows' ! i)) \<subseteq> set fns"
      by blast
    show ?thesis
    proof (cases "r2 = Inr ()")
      case True
      with m ml ne Inr rows'' wr have rs: "regression_stage ops rows' st2 = (r, st)"
        by (simp add: main_def)
      from True n(3) have nl: "n = length rows'" by auto
      have "\<forall>row\<in>set rows'. set (map fst row) \<subseteq> set fns"
      proof
        fix row assume "row \<in> set rows'"
        then obtain i where "i < length rows'" "rows' ! i = row"
          by (auto simp: in_set_conv_nth)
        with n(4) nl show "set (map fst row) \<subseteq> set fns" by blast
      qed
      with rs tr Inr n(2) True nl show ?thesis
        by (intro exI [of _ tr] disjI2) auto
    next
      case False
      with n(3) have r2: "r2 = Inl (Raised ValueError)" "n < length rows'"
        "\<not> set (map fst (rows' ! n)) \<subseteq> set fns" by auto
      with m ml ne Inr rows'' wr have "r = Inl (Raised ValueError)" "st = st2"
        by (simp_all add: main_def)
      with tr Inr n(2,4) r2 False show ?thesis
        by (intro exI [of _ tr] disjI2 disjI1 exI [of _ n]) (auto simp: rows'_def)
    qed
  qed
qed

lemma trainer_event_no_file: "is_trainer_event e \<Longrightarrow> \<not> is_file_event e"
  by (cases e rule: is_trainer_event.cases) simp_all

lemma main_no_rows:
  "main ops run None w = (Inl (SysExit 1), \<lparr>trace = [Print MsgNotFound], world = w\<rparr>)"
  "main ops run (Some []) w = (Inl (SysExit 0), \<lparr>trace = [Print MsgNoRows], world = w\<rparr>)"
  by (simp_all add: main_def emit_def)

lemma main_run_coarse:
  assumes m: "main ops run (Some rows) w = (r, st)" and ne: "rows \<noteq> []"
  shows "\<exists>tr.
     (\<exists>e. r = Inl e \<and> loop_segment tr (Some e) \<and>
          trace st = Print (MsgLoaded (length rows)) # tr) \<or>
     (\<exists>tr'. loop_segment tr None \<and> trace st = Print (MsgLoaded (length rows)) # tr @ tr' \<and>
          (\<forall>e\<in>set tr'. \<not> is_trainer_event e))"
proof -
  from main_run [OF m ne] obtain tr where
    "(\<exists>e. r = Inl e \<and> loop_segment tr (Some e) \<and>
          trace st = Print (MsgLoaded (length rows)) # tr) \<or>
     (\<exists>n<length rows. r = Inl (Raised ValueError) \<and> loop_segment tr None \<and>
          trace st = Print (MsgLoaded (length rows)) # tr
             @ [OpenWrite ResultsCsv, WriteHeader (with_total_score (map fst (hd rows)))]
             @ map (\<lambda>row. WriteRow (row_cells (with_total_score (map fst (hd rows))) row))
                 (take n (map (scored_row ops) rows)) \<and>
          \<not> set (map fst (map (scored_row ops) rows ! n))
              \<subseteq> set (with_total_score (map fst (hd rows))) \<and>
          (\<forall>i<n. set (map fst (map (scored_row ops) rows ! i))
              \<subseteq> set (with_total_score (map fst (hd rows))))) \<or>
     (\<exists>st2. loop_segment tr None \<and>
          trace st2 = Print (MsgLoaded (length rows)) # tr
             @ [OpenWrite ResultsCsv, WriteHeader (with_total_score (map fst (hd rows)))]
             @ map (\<lambda>row. WriteRow (row_cells (with_total_score (map fst (hd rows))) row))
                 (map (scored_row ops) rows) @ [Print MsgWrote] \<and>
          (\<forall>row\<in>set (map (scored_row ops) rows).
              set (map fst row) \<subseteq> set (with_total_score (map fst (hd rows)))) \<and>
          regression_stage ops (map (scored_row ops) rows) st2 = (r, st))"
    (is "?A \<or> ?B \<or> ?C")
    by blast
  then consider ?A | ?B | ?C by blast
  then show ?thesis
  proof cases
    case 1
    then show ?thesis by blast
  next
    case 2
    then obtain n where "loop_segment tr None"
      "trace st = Print (MsgLoaded (length rows)) # tr
             @ ([OpenWrite ResultsCsv, WriteHeader (with_total_score (map fst (hd rows)))]
             @ map (\<lambda>row. WriteRow (row_cells (with_total_score (map fst (hd rows))) row))
                 (take n (map (scored_row ops) rows)))"
      by auto
    then show ?thesis
      by (intro exI [of _ tr] disjI2 exI [of _ "[OpenWrite ResultsCsv, WriteHeader (with_total_score (map fst (hd rows)))]
             @ map (\<lambda>row. WriteRow (row_cells (with_total_score (map fst (hd rows))) row))
                 (take n (map (scored_row ops) rows))"]) auto
  next
    case 3
    then obtain st2 where c: "loop_segment tr None"
      "trace st2 = Print (MsgLoaded (length rows)) # tr
             @ [OpenWrite ResultsCsv, WriteHeader (with_total_score (map fst (hd rows)))]
             @ map (\<lambda>row. WriteRow (row_cells (with_total_score (map fst (hd rows))) row))
                 (map (scored_row ops) rows) @ [Print MsgWrote]"
      "regression_stage ops (map (scored_row ops) rows) st2 = (r, st)"
      by blast
    from regression_stage_trace [OF c(3)] obtain tr4 where
      tr4: "trace st = trace st2 @ tr4" "\<forall>e\<in>set tr4. \<not> is_trainer_event e" by blast
    with c(1,2) show ?thesis
      by (intro exI [of _ tr] disjI2 exI [of _ "[OpenWrite ResultsCsv, WriteHeader (with_total_score (map fst (hd rows)))]
             @ map (\<lambda>row. WriteRow (row_cells (with_total_score (map fst (hd rows))) row))
                 (map (scored_row ops) rows) @ [Print MsgWrote] @ tr4"]) auto
  qed
qed

section \<open>Runs on the example tables\<close>

lemmas eval_defs =
  main_def emit_def compute_total_score_def SCORING_COLUMNS_def fzero_def parse_float_def
  py_get_def py_get_default_def py_float_def run_trainer_for_row_def truthy_def py_strip_def
  py_isspace_def subprocess_run_def get_error_for_row_def write_results_def
  dict_to_list_def
  regression_stage_def linear_regression_def py_sum_def exact_ops_def example_run_def
  digit_value_def Let_def

lemma main_failing_table:
  "main exact_ops example_run (Some failing_table) 0 =
     (Inl (Raised CalledProcessError),
      \<lparr>trace =
         [Print (MsgLoaded 3),
          Print (MsgRunning (VStr ''heat'') ''ok''), Subprocess ''ok'' (Exited 0),
          Print (MsgDone (VStr ''heat'')),
          Print (MsgRunning (VStr ''wave'') ''fail''), Subprocess ''fail'' (Exited 1)],
       world = 2\<rparr>)"
  by (simp add: failing_table_def eval_defs)

lemma main_ragged_table:
  "main exact_ops example_run (Some ragged_table) 0 =
     (Inl (Raised ValueError),
      \<lparr>trace =
         [Print (MsgLoaded 2),
          Print (MsgSkip (VStr ''UNKNOWN'')), Print (MsgSkip (VStr ''UNKNOWN'')),
          OpenWrite ResultsCsv, WriteHeader [KStr ''a'', KStr ''Total_Score''],
          WriteRow [VStr ''1'', VFloat 0]],
       world = 0\<rparr>)"
  by (simp add: ragged_table_def eval_defs)

lemma main_plain_table:
  "main exact_ops example_run (Some plain_table) 0 =
     (Inr (),
      \<lparr>trace =
         [Print (MsgLoaded 2),
          Print (MsgSkip (VStr ''heat'')), Print (MsgSkip (VStr ''wave'')),
          OpenWrite ResultsCsv,
          WriteHeader [KStr ''Name'', KStr ''Time'', KStr ''L3_Error'', KStr ''Total_Score''],
          WriteRow [VStr ''heat'', VStr ''1'', VStr [], VFloat 1],
          WriteRow [VStr ''wave'', VStr ''x'', VFloat 2, VFloat 0],
          Print MsgWrote, Print MsgNotEnough],
       world = 0\<rparr>)"
  by (simp add: plain_table_def eval_defs)

lemma main_trained_table:
  "main exact_ops example_run (Some trained_table) 0 =
     (Inr (),
      \<lparr>trace =
         [Print (MsgLoaded 2),
          Print (MsgRunning (VStr ''heat'') ''ok''), Subprocess ''ok'' (Exited 0),
          Print (MsgDone (VStr ''heat'')),
          Print (MsgRunning (VStr ''wave'') ''train.wave''),
          Subprocess ''train.wave'' (Exited 0),
          Print (MsgDone (VStr ''wave'')),
          OpenWrite ResultsCsv,
          WriteHeader [KStr ''Name'', KStr ''TrainerModule'', KStr ''Time'', KStr ''L3_Error'',
            KStr ''Total_Score''],
          WriteRow [VStr ''heat'', VStr ''ok'', VStr ''1'', VStr [], VFloat 1],
          WriteRow [VStr ''wave'', VStr '' train.wave'', VStr ''x'', VFloat 2, VFloat 0],
          Print MsgWrote, Print MsgNotEnough],
       world = 2\<rparr>)"
  by (simp add: trained_table_def eval_defs)

text \<open>
  A module name with a NUL character: \<^verbatim>\<open>subprocess.run\<close> raises \<^verbatim>\<open>ValueError\<close>, no
  process is started and no file is opened.
\<close>

lemma main_nul_table:
  "main exact_ops example_run (Some nul_table) 0 =
     (Inl (Raised ValueError),
      \<lparr>trace =
         [Print (MsgLoaded 1),
          Print (MsgRunning (VStr ''heat'') [CHR ''a'', CHR 0x00, CHR ''b'']),
          Subprocess [CHR ''a'', CHR 0x00, CHR ''b''] (NotStarted ValueError)],
       world = 0\<rparr>)"
  by (simp add: nul_table_def eval_defs)

section \<open>Evaluation in binary floating point\<close>

lemma normalise_unfold:
  "normalise n q e =
     (if n = 0 then (q, e)
      else if 2 ^ 117 \<le> q then normalise (n - 1) (q / 2 ^ 64) (e + 64)
      else if 2 ^ 61 \<le> q then normalise (n - 1) (q / 2 ^ 8) (e + 8)
      else if 2 ^ 53 \<le> q then normalise (n - 1) (q / 2) (e + 1)
      else if q < 1 / 2 ^ 12 \<and> - 1010 < e then normalise (n - 1) (q * 2 ^ 64) (e - 64)
      else if q < 2 ^ 44 \<and> - 1066 < e then normalise (n - 1) (q * 2 ^ 8) (e - 8)
      else if q < 2 ^ 52 \<and> - 1074 < e then normalise (n - 1) (q * 2) (e - 1)
      else (q, e))"
  by (cases n) simp_all

lemma floor_rat_numeral:
  "\<lfloor>(numeral a :: rat) / numeral b\<rfloor> = numeral a div numeral b"
  using floor_divide_of_int_eq [of "numeral a" "numeral b", where ?'a = rat] by simp

lemma floor_rat_one: "\<lfloor>(1 :: rat) / numeral b\<rfloor> = 1 div numeral b"
  using floor_divide_of_int_eq [of 1 "numeral b", where ?'a = rat] by simp

lemmas double_eval =
  to_double_def normalise_unfold round_half_even_def floor_rat_numeral floor_rat_one

lemma double_ops_simps:
  "fadd double_ops x y = to_double (x + y)"
  "fsub double_ops x y = to_double (x - y)"
  "fmul double_ops x y = to_double (x * y)"
  "fdiv double_ops x y = to_double (x / y)"
  "fpow2 double_ops x = to_double (x * x)"
  "pow2_overflows double_ops x = (2 ^ 1024 \<le> to_double (x * x))"
  "fsum double_ops xs = foldl (\<lambda>s x. to_double (s + x)) 0 xs"
  "float_of_int double_ops i = to_double (of_int i)"
  "is_zero double_ops x = (x = 0)"
  "is_nan double_ops x = False"
  by (simp_all add: double_ops_def)

text \<open>
  The rounding on some numbers: \<^verbatim>\<open>0.1\<close> and \<^verbatim>\<open>0.1 + 0.2\<close> (which is
  \<^verbatim>\<open>0.30000000000000004\<close>), a tie that goes to the even significand, the smallest
  subnormal number, and the floats \<^verbatim>\<open>1e200\<close> and \<^verbatim>\<open>2.1e201\<close>.
\<close>

lemma to_double_examples:
  "to_double (1 / 10) = tenth"
  "to_double (to_double (1 / 10) + to_double (2 / 10)) = 1351079888211149 / 2 ^ 52"
  "to_double (2 ^ 53 + 1) = 2 ^ 53"
  "to_double (2 ^ 53 + 3) = 2 ^ 53 + 4"
  "to_double (1 / 2 ^ 1074) = 1 / 2 ^ 1074"
  "to_double (1 / 2 ^ 1075) = 0"
  "to_double (3 / 2 ^ 1075) = 2 / 2 ^ 1074"
  by (simp_all add: tenth_def double_eval)

lemma huge_value: "huge = 5883593420661338 * 2 ^ 612"
  by (simp add: huge_def double_ops_simps double_eval)

lemma huge21_value: "huge21 = 7722216364618006 * 2 ^ 616"
  by (simp add: huge21_def double_ops_simps double_eval)

lemma parse_tenth: "float_of_str double_ops ''0.1'' = Some tenth"
  by (simp add: double_ops_def digit_value_def tenth_def double_eval)

lemma parse_ints:
  "float_of_str double_ops ''1'' = Some 1"
  "float_of_str double_ops ''2'' = Some 2"
  "float_of_str double_ops ''3'' = Some 3"
  by (simp_all add: double_ops_def digit_value_def double_eval)

lemma add_tenth:
  "fadd double_ops 0 tenth = tenth" "fadd double_ops tenth 0 = tenth"
  "fadd double_ops 0 0 = 0" "float_of_int double_ops 0 = 0"
  by (simp_all add: double_ops_simps tenth_def double_eval)

lemma sum_of_columns_tenth:
  "sum_of_columns double_ops
     [(KStr ''Dimensionality'', VStr ''0.1''), (KStr ''L3_Error'', VStr e)] = tenth"
  by (simp add: sum_of_columns_def column_value_def SCORING_COLUMNS_def py_float_def
      parse_tenth add_tenth fzero_def)

text \<open>
  The regression on three points with \<open>x = 0.1\<close>: the sum of the three is
  \<^verbatim>\<open>0.30000000000000004\<close>, the mean is \<^verbatim>\<open>0.10000000000000002\<close>, one unit in the last
  place above \<^verbatim>\<open>0.1\<close>, and every deviation from it is \<open>- 2^(-56)\<close>.
\<close>

lemma mean_tenth:
  "mean double_ops [tenth, tenth, tenth] = 7205759403792795 / 72057594037927936"
  by (simp add: mean_def py_sum_def tenth_def double_ops_simps double_eval)

lemma mean_123: "mean double_ops [1, 2, 3] = 2"
  by (simp add: mean_def py_sum_def double_ops_simps double_eval)

lemma sum_sq_dev_tenth:
  "sum_sq_dev double_ops [tenth, tenth, tenth] = Some (3 / 2 ^ 112)"
  unfolding sum_sq_dev_def mean_tenth
  by (simp add: py_sum_def tenth_def double_ops_simps double_eval)

lemma sum_cross_dev_tenth:
  "sum_cross_dev double_ops [tenth, tenth, tenth] [1, 2, 3] = 0"
  unfolding sum_cross_dev_def mean_tenth mean_123
  by (simp add: py_sum_def tenth_def double_ops_simps double_eval)

lemma linear_regression_tenth:
  "linear_regression double_ops [tenth, tenth, tenth] [1, 2, 3] = Inr (Some (0, 2))"
proof -
  have "linear_regression double_ops [tenth, tenth, tenth] [1, 2, 3] =
      Inr (Some (slope double_ops [tenth, tenth, tenth] [1, 2, 3] (3 / 2 ^ 112),
        intercept double_ops [tenth, tenth, tenth] [1, 2, 3]
          (slope double_ops [tenth, tenth, tenth] [1, 2, 3] (3 / 2 ^ 112))))"
    by (rule linear_regression_Some) (simp_all add: sum_sq_dev_tenth double_ops_simps)
  moreover have "slope double_ops [tenth, tenth, tenth] [1, 2, 3] (3 / 2 ^ 112) = 0"
    unfolding slope_def sum_cross_dev_tenth by (simp add: double_ops_simps double_eval)
  moreover have "intercept double_ops [tenth, tenth, tenth] [1, 2, 3] 0 = 2"
    unfolding intercept_def mean_tenth mean_123 by (simp add: double_ops_simps double_eval)
  ultimately show ?thesis by simp
qed

lemma main_tenth_table:
  "main double_ops example_run (Some tenth_table) 0 =
     (Inr (),
      \<lparr>trace =
         [Print (MsgLoaded 3),
          Print (MsgSkip (VStr ''UNKNOWN'')), Print (MsgSkip (VStr ''UNKNOWN'')),
          Print (MsgSkip (VStr ''UNKNOWN'')),
          OpenWrite ResultsCsv,
          WriteHeader [KStr ''Dimensionality'', KStr ''L3_Error'', KStr ''Total_Score''],
          WriteRow [VStr ''0.1'', VFloat 1, VFloat tenth],
          WriteRow [VStr ''0.1'', VFloat 2, VFloat tenth],
          WriteRow [VStr ''0.1'', VFloat 3, VFloat tenth],
          Print MsgWrote, Print (MsgRegression 0 2), OpenWrite RegressionTxt,
          WriteRegression 0 2, WriteUsed 3, Print MsgSaved],
       world = 0\<rparr>)"
  by (simp add: tenth_table_def main_def emit_def compute_total_score_sum sum_of_columns_tenth
      run_trainer_for_row_def truthy_def py_get_def py_get_default_def py_strip_def
      get_error_for_row_def parse_float_def py_float_def parse_ints write_results_def
      dict_to_list_def regression_stage_def linear_regression_tenth double_ops_simps Let_def)

text \<open>
  The regression on the points with \<open>x = 1e200\<close> and \<open>x = - 1e200\<close>, whose mean is 0, and on
  three points with \<open>x = 2.1e201\<close>, whose computed mean is one unit in the last place
  below \<open>x\<close>: the square of a deviation is beyond the largest float.
\<close>

lemma mean_huge: "mean double_ops [huge, - huge] = 0"
  by (simp add: mean_def py_sum_def huge_value double_ops_simps double_eval)

lemma linear_regression_huge:
  "linear_regression double_ops [huge, - huge] [1, 2] = Inl OverflowError"
proof -
  have "pow2_overflows double_ops (fsub double_ops huge 0)"
    by (simp add: huge_value double_ops_simps double_eval)
  then show ?thesis
    unfolding linear_regression_def mean_def [symmetric] Let_def mean_huge
    by simp
qed

lemma mean_huge21:
  "mean double_ops [huge21, huge21, huge21] = 7722216364618005 * 2 ^ 616"
  by (simp add: mean_def py_sum_def huge21_value double_ops_simps double_eval)

lemma linear_regression_huge21:
  "linear_regression double_ops [huge21, huge21, huge21] [1, 2, 3] = Inl OverflowError"
proof -
  have "pow2_overflows double_ops (fsub double_ops huge21 (7722216364618005 * 2 ^ 616))"
    by (simp add: huge21_value double_ops_simps double_eval)
  then show ?thesis
    unfolding linear_regression_def mean_def [symmetric] Let_def mean_huge21
    by simp
qed

section \<open>A failing trainer\<close>

text \<open>
  C4. If a trainer subprocess of a run exits with a status other than 0, the run ends
  with the propagated \<^verbatim>\<open>CalledProcessError\<close> of \<^verbatim>\<open>subprocess.run(..., check=True)\<close>; that
  subprocess is the last event of the run, so that no later record is scored, trained or
  reported; and the run has opened and written no file: it fails before the writer runs
  and leaves no \<^verbatim>\<open>results.csv\<close> of its own.
\<close>

theorem failed_trainer_aborts:
  assumes m: "main ops run input w = (r, st)"
    and ev: "Subprocess m (Exited status) \<in> set (trace st)" and nz: "status \<noteq> 0"
  shows "r = Inl (Raised CalledProcessError) \<and>
         last (trace st) = Subprocess m (Exited status) \<and>
         (\<forall>e\<in>set (trace st). \<not> is_file_event e)"
proof (cases "\<exists>rows. input = Some rows \<and> rows \<noteq> []")
  case False
  then have "input = None \<or> input = Some []" by (cases input) auto
  with m ev show ?thesis by (auto simp: main_no_rows)
next
  case True
  then obtain rows where rows: "input = Some rows" "rows \<noteq> []" by blast
  let ?e = "Subprocess m (Exited status)"
  have f: "failed_trainer ?e" using nz by simp
  from main_run_coarse [OF m [unfolded rows(1)] rows(2)] obtain tr where
    "(\<exists>e. r = Inl e \<and> loop_segment tr (Some e) \<and>
          trace st = Print (MsgLoaded (length rows)) # tr) \<or>
     (\<exists>tr'. loop_segment tr None \<and> trace st = Print (MsgLoaded (length rows)) # tr @ tr' \<and>
          (\<forall>e\<in>set tr'. \<not> is_trainer_event e))"
    (is "?A \<or> ?B")
    by blast
  then show ?thesis
  proof
    assume ?A
    then obtain e where e: "r = Inl e" "loop_segment tr (Some e)"
      "trace st = Print (MsgLoaded (length rows)) # tr" by blast
    from ev e(3) have "?e \<in> set tr" by simp
    with e(2) f have "e = Raised CalledProcessError" "last tr = ?e" "tr \<noteq> []"
      unfolding loop_segment_def by auto
    moreover from e(2) have "\<forall>x\<in>set tr. \<not> is_file_event x"
      unfolding loop_segment_def by (auto dest: trainer_event_no_file)
    ultimately show ?thesis using e(1,3) by simp
  next
    assume ?B
    then obtain tr' where b: "loop_segment tr None"
      "trace st = Print (MsgLoaded (length rows)) # tr @ tr'"
      "\<forall>e\<in>set tr'. \<not> is_trainer_event e" by blast
    from ev b(2,3) have "?e \<in> set tr" by auto
    with b(1) f show ?thesis unfolding loop_segment_def by auto
  qed
qed

theorem failed_trainer_aborts_witness:
  "Subprocess ''fail'' (Exited 1)
     \<in> set (trace (snd (main exact_ops example_run (Some failing_table) 0))) \<and>
   (1 :: int) \<noteq> 0 \<and>
   fst (main exact_ops example_run (Some failing_table) 0) = Inl (Raised CalledProcessError) \<and>
   last (trace (snd (main exact_ops example_run (Some failing_table) 0)))
     = Subprocess ''fail'' (Exited 1) \<and>
   \<not> list_ex is_file_event (trace (snd (main exact_ops example_run (Some failing_table) 0)))"
  using failed_trainer_aborts [OF main_failing_table, of "''fail''" 1]
  by (simp add: main_failing_table list_ex_iff)

section \<open>The fit\<close>

lemma regression_example:
  assumes ex: "exact_on_small_ints ops"
  defines "F \<equiv> float_of_int ops"
  shows "linear_regression ops [F 1, F 2, F 3] [F 2, F 4, F 6] = Inr (Some (F 2, F 0))"
proof -
  have add: "\<And>a b. \<bar>a\<bar> \<le> 16 \<Longrightarrow> \<bar>b\<bar> \<le> 16 \<Longrightarrow> fsub ops (F a) (F b) = F (a - b)"
    and mul: "\<And>a b. \<bar>a\<bar> \<le> 16 \<Longrightarrow> \<bar>b\<bar> \<le> 16 \<Longrightarrow> 0 < a * b \<or> (0 \<le> a \<and> 0 \<le> b) \<Longrightarrow>
          fmul ops (F a) (F b) = F (a * b)"
    and dv: "\<And>a b. \<bar>a\<bar> \<le> 16 \<Longrightarrow> \<bar>b\<bar> \<le> 16 \<Longrightarrow> 0 \<le> a \<Longrightarrow> 0 < b \<Longrightarrow> b dvd a \<Longrightarrow>
          fdiv ops (F a) (F b) = F (a div b)"
    and pw: "\<And>a. \<bar>a\<bar> \<le> 16 \<Longrightarrow> \<not> pow2_overflows ops (F a)"
          "\<And>a. \<bar>a\<bar> \<le> 16 \<Longrightarrow> fpow2 ops (F a) = F (a * a)"
          "\<And>a. \<bar>a\<bar> \<le> 16 \<Longrightarrow> is_zero ops (F a) = (a = 0)"
    and sm: "\<And>as. as \<noteq> [] \<Longrightarrow> length as \<le> 16 \<Longrightarrow> \<forall>a\<in>set as. 0 \<le> a \<and> a \<le> 16 \<Longrightarrow>
          fsum ops (map F as) = F (sum_list as)"
    using ex unfolding exact_on_small_ints_def F_def by blast+
  have s1: "fsum ops [F 1, F 2, F 3] = F 6" using sm [of "[1, 2, 3]"] by simp
  have s2: "fsum ops [F 2, F 4, F 6] = F 12" using sm [of "[2, 4, 6]"] by simp
  have s3: "fsum ops [F 2, F 0, F 2] = F 4" using sm [of "[2, 0, 2]"] by simp
  have s4: "fsum ops [F 1, F 0, F 1] = F 2" using sm [of "[1, 0, 1]"] by simp
  have mx: "fdiv ops (F 6) (F 3) = F 2" using dv [of 6 3] by simp
  have my: "fdiv ops (F 12) (F 3) = F 4" using dv [of 12 3] by simp
  have a: "fdiv ops (F 4) (F 2) = F 2" using dv [of 4 2] by simp
  have d: "fsub ops (F 1) (F 2) = F (- 1)" "fsub ops (F 2) (F 2) = F 0"
      "fsub ops (F 3) (F 2) = F 1" "fsub ops (F 2) (F 4) = F (- 2)"
      "fsub ops (F 4) (F 4) = F 0" "fsub ops (F 6) (F 4) = F 2"
    using add [of 1 2] add [of 2 2] add [of 3 2] add [of 2 4] add [of 4 4] add [of 6 4]
    by simp_all
  have m: "fmul ops (F (- 1)) (F (- 2)) = F 2" "fmul ops (F 0) (F 0) = F 0"
      "fmul ops (F 1) (F 2) = F 2" "fmul ops (F 2) (F 2) = F 4"
    using mul [of "- 1" "- 2"] mul [of 0 0] mul [of 1 2] mul [of 2 2] by simp_all
  have p: "fpow2 ops (F (- 1)) = F 1" "fpow2 ops (F 0) = F 0" "fpow2 ops (F 1) = F 1"
      "\<not> pow2_overflows ops (F (- 1))" "\<not> pow2_overflows ops (F 0)"
      "\<not> pow2_overflows ops (F 1)" "\<not> is_zero ops (F 2)"
    using pw(2) [of "- 1"] pw(2) [of 0] pw(2) [of 1] pw(1) [of "- 1"] pw(1) [of 0]
      pw(1) [of 1] pw(3) [of 2]
    by simp_all
  show ?thesis
    unfolding linear_regression_def py_sum_def Let_def
    by (simp add: s1 s2 s3 s4 mx my a d m p F_def [symmetric])
qed

text \<open>
  C2, as the code has it. For lists \<open>xs\<close> and \<open>ys\<close> of equal length, \<open>xs\<close> not empty, for
  which no square \<^verbatim>\<open>(x - mean_x) ** 2\<close> overflows, so that the sum \<open>d\<close> of the squared
  deviations of \<open>xs\<close> from its mean is computed, and \<open>d\<close> is not zero,
  \<^verbatim>\<open>linear_regression\<close> returns the slope
  \<open>a = \<Sum>(x - mean_x)(y - mean_y) / \<Sum>(x - mean_x)\<^sup>2\<close> and the intercept
  \<open>b = mean_y - a * mean_x\<close>. On the points (1,2), (2,4), (3,6) it returns the slope \<^verbatim>\<open>2.0\<close>
  and the intercept \<^verbatim>\<open>0.0\<close>, for float operations that are exact on small whole numbers.
  The regression stage writes the fit with the number of points it used.

  It does not return a fit for every \<open>xs\<close> whose squared deviations do not sum to zero:
  on the points (1e200, 1) and (-1e200, 2) the mean of the \<open>x\<close> is 0, the square of
  \<^verbatim>\<open>1e200\<close> is beyond the largest float, and \<^verbatim>\<open>**\<close> raises \<^verbatim>\<open>OverflowError\<close>.
\<close>

theorem regression_fit:
  "(length xs = length ys \<and> xs \<noteq> [] \<and> sum_sq_dev ops xs = Some d \<and> \<not> is_zero ops d \<longrightarrow>
      linear_regression ops xs ys =
        Inr (Some (slope ops xs ys d, intercept ops xs ys (slope ops xs ys d)))) \<and>
   (exact_on_small_ints ops \<longrightarrow>
      linear_regression ops
        [float_of_int ops 1, float_of_int ops 2, float_of_int ops 3]
        [float_of_int ops 2, float_of_int ops 4, float_of_int ops 6]
      = Inr (Some (float_of_int ops 2, float_of_int ops 0))) \<and>
   (collect_points ops rows = (xs, ys) \<and> linear_regression ops xs ys = Inr (Some (a, b)) \<longrightarrow>
      regression_stage ops rows st =
        (Inr (),
         st\<lparr>trace := trace st @
            [Print (MsgRegression a b), OpenWrite RegressionTxt, WriteRegression a b,
             WriteUsed (length xs), Print MsgSaved]\<rparr>))"
  using linear_regression_Some [of xs ys ops d] regression_example [of ops]
    regression_stage_Some [of ops rows xs ys a b st]
  by blast

lemma collect_line_table:
  "collect_points exact_ops (map (scored_row exact_ops) line_table) = ([1, 2, 3], [2, 4, 6])"
  by (simp add: line_table_def scored_row_def sum_of_columns_def column_value_def
      parse_float_def py_get_def py_float_def fzero_def exact_ops_def digit_value_def)

theorem regression_fit_witness:
  "length [1, 2, 3 :: rat] = length [2, 4, 6 :: rat] \<and> [1, 2, 3 :: rat] \<noteq> [] \<and>
   sum_sq_dev exact_ops [1, 2, 3] = Some 2 \<and> \<not> is_zero exact_ops 2 \<and>
   exact_on_small_ints exact_ops \<and>
   slope exact_ops [1, 2, 3] [2, 4, 6] 2 = 2 \<and> intercept exact_ops [1, 2, 3] [2, 4, 6] 2 = 0 \<and>
   linear_regression exact_ops [1, 2, 3] [2, 4, 6] = Inr (Some (2, 0)) \<and>
   collect_points exact_ops (map (scored_row exact_ops) line_table) = ([1, 2, 3], [2, 4, 6]) \<and>
   regression_stage exact_ops (map (scored_row exact_ops) line_table)
       \<lparr>trace = [], world = 0 :: nat\<rparr> =
     (Inr (),
      \<lparr>trace = [Print (MsgRegression 2 0), OpenWrite RegressionTxt, WriteRegression 2 0,
                WriteUsed 3, Print MsgSaved],
       world = 0\<rparr>)"
  using regression_fit [of "[1, 2, 3]" "[2, 4, 6]" exact_ops 2
      "map (scored_row exact_ops) line_table" 2 0 "\<lparr>trace = [], world = 0 :: nat\<rparr>"]
    exact_ops_small collect_line_table
  by (simp add: sum_sq_dev_def slope_def intercept_def sum_cross_dev_def mean_def py_sum_def
      fzero_def exact_ops_def)

theorem regression_fit_counterexample:
  "length [huge, - huge] = length [1, 2 :: rat] \<and> [huge, - huge] \<noteq> [] \<and>
   mean double_ops [huge, - huge] = 0 \<and>
   (huge - mean double_ops [huge, - huge])\<^sup>2
     + (- huge - mean double_ops [huge, - huge])\<^sup>2 \<noteq> 0 \<and>
   sum_sq_dev double_ops [huge, - huge] = None \<and>
   linear_regression double_ops [huge, - huge] [1, 2] = Inl OverflowError"
proof -
  have "pow2_overflows double_ops (fsub double_ops huge 0)"
    by (simp add: huge_value double_ops_simps double_eval)
  then have "sum_sq_dev double_ops [huge, - huge] = None"
    unfolding sum_sq_dev_def mean_huge by simp
  moreover have "huge\<^sup>2 + (- huge)\<^sup>2 \<noteq> 0"
    by (simp add: huge_value)
  ultimately show ?thesis
    by (simp add: mean_huge linear_regression_huge)
qed

section \<open>Insufficient data\<close>

lemma trainer_event_no_regression: "is_trainer_event e \<Longrightarrow> \<not> is_regression_event e"
  by (cases e rule: is_trainer_event.cases) simp_all

lemma loop_segment_events:
  assumes "loop_segment tr f" and "e \<in> set tr"
  shows "is_trainer_event e"
  using assms unfolding loop_segment_def by blast

lemma main_insufficient_data:
  assumes m: "main ops run (Some rows) w = (r, st)"
    and wrote: "Print MsgWrote \<in> set (trace st)"
    and none: "linear_regression ops (fst (collect_points ops (map (scored_row ops) rows)))
                 (snd (collect_points ops (map (scored_row ops) rows))) = Inr None"
  shows "r = Inr () \<and> last (trace st) = Print MsgNotEnough \<and>
         (\<forall>e\<in>set (trace st). \<not> is_regression_event e)"
proof -
  let ?fns = "with_total_score (map fst (hd rows))"
  let ?rows' = "map (scored_row ops) rows"
  have ne: "rows \<noteq> []"
    using m wrote by (auto simp: main_no_rows)
  from main_run [OF m ne] obtain tr where
    "(\<exists>e. r = Inl e \<and> loop_segment tr (Some e) \<and>
          trace st = Print (MsgLoaded (length rows)) # tr) \<or>
     (\<exists>n<length rows. r = Inl (Raised ValueError) \<and> loop_segment tr None \<and>
          trace st = Print (MsgLoaded (length rows)) # tr
             @ [OpenWrite ResultsCsv, WriteHeader ?fns]
             @ map (\<lambda>row. WriteRow (row_cells ?fns row)) (take n ?rows') \<and>
          \<not> set (map fst (?rows' ! n)) \<subseteq> set ?fns \<and>
          (\<forall>i<n. set (map fst (?rows' ! i)) \<subseteq> set ?fns)) \<or>
     (\<exists>st2. loop_segment tr None \<and>
          trace st2 = Print (MsgLoaded (length rows)) # tr
             @ [OpenWrite ResultsCsv, WriteHeader ?fns]
             @ map (\<lambda>row. WriteRow (row_cells ?fns row)) ?rows' @ [Print MsgWrote] \<and>
          (\<forall>row\<in>set ?rows'. set (map fst row) \<subseteq> set ?fns) \<and>
          regression_stage ops ?rows' st2 = (r, st))"
    (is "?A tr \<or> ?B tr \<or> ?C tr")
    by blast
  then consider "?A tr" | "?B tr" | "?C tr" by blast
  then show ?thesis
  proof cases
    case 1
    then have "\<forall>e\<in>set (trace st). e = Print (MsgLoaded (length rows)) \<or> is_trainer_event e"
      by (auto dest: loop_segment_events)
    with wrote show ?thesis by fastforce
  next
    case 2
    then have "\<forall>e\<in>set (trace st). e \<noteq> Print MsgWrote"
      by (auto dest: loop_segment_events)
    with wrote show ?thesis by blast
  next
    case 3
    then obtain st2 where c: "loop_segment tr None"
      "trace st2 = Print (MsgLoaded (length rows)) # tr
             @ [OpenWrite ResultsCsv, WriteHeader ?fns]
             @ map (\<lambda>row. WriteRow (row_cells ?fns row)) ?rows' @ [Print MsgWrote]"
      "regression_stage ops ?rows' st2 = (r, st)"
      by blast
    from none have "regression_stage ops ?rows' st2
        = (Inr (), st2\<lparr>trace := trace st2 @ [Print MsgNotEnough]\<rparr>)"
      by (intro regression_stage_None [of ops ?rows' "fst (collect_points ops ?rows')"
            "snd (collect_points ops ?rows')"]) simp_all
    with c(3) have r: "r = Inr ()" "trace st = trace st2 @ [Print MsgNotEnough]"
      by auto
    have "\<forall>e\<in>set tr. \<not> is_regression_event e"
      using c(1) by (auto dest: loop_segment_events trainer_event_no_regression)
    with r c(2) show ?thesis by auto
  qed
qed

text \<open>
  When \<^verbatim>\<open>linear_regression\<close> returns \<^verbatim>\<open>(None, None)\<close>, and what follows. It returns it
  exactly when the list of points is empty or the denominator, the sum of the squared
  deviations of the \<open>x\<close> from their mean, is computed and equals zero. The regression stage
  then prints the message that there are not enough pairs and returns; and a run of
  \<^verbatim>\<open>main\<close> that has written the results and whose points give \<^verbatim>\<open>(None, None)\<close> returns
  normally, with that message as its last event and without opening or writing
  \<^verbatim>\<open>regression.txt\<close>.
\<close>

lemma insufficient_data_reported:

  "((linear_regression ops xs ys = Inr None) =
      (xs = [] \<or> (\<exists>d. sum_sq_dev ops xs = Some d \<and> is_zero ops d))) \<and>
   (collect_points ops rows' = (xs, ys) \<and> linear_regression ops xs ys = Inr None \<longrightarrow>
      regression_stage ops rows' st' =
        (Inr (), st'\<lparr>trace := trace st' @ [Print MsgNotEnough]\<rparr>)) \<and>
   (main ops run (Some rows) w = (r, st) \<and> Print MsgWrote \<in> set (trace st) \<and>
    linear_regression ops (fst (collect_points ops (map (scored_row ops) rows)))
      (snd (collect_points ops (map (scored_row ops) rows))) = Inr None \<longrightarrow>
      r = Inr () \<and> last (trace st) = Print MsgNotEnough \<and>
      (\<forall>e\<in>set (trace st). \<not> is_regression_event e))"
  using linear_regression_None_iff [of ops xs ys]
    regression_stage_None [of ops rows' xs ys st']
    main_insufficient_data [of ops run rows w r st]
  by blast

lemma main_flat_table:
  "main exact_ops example_run (Some flat_table) 0 =
     (Inr (),
      \<lparr>trace =
         [Print (MsgLoaded 2),
          Print (MsgSkip (VStr ''UNKNOWN'')), Print (MsgSkip (VStr ''UNKNOWN'')),
          OpenWrite ResultsCsv,
          WriteHeader [KStr ''Time'', KStr ''L3_Error'', KStr ''Total_Score''],
          WriteRow [VStr ''1'', VFloat 1, VFloat 1],
          WriteRow [VStr ''1'', VFloat 2, VFloat 1],
          Print MsgWrote, Print MsgNotEnough],
       world = 0\<rparr>)"
  by (simp add: flat_table_def eval_defs)

lemma collect_flat_table:
  "collect_points exact_ops (map (scored_row exact_ops) flat_table) = ([1, 1], [1, 2])"
  by (simp add: flat_table_def scored_row_def sum_of_columns_def column_value_def
      parse_float_def py_get_def py_float_def fzero_def exact_ops_def digit_value_def)

lemma insufficient_data_reported_example:
  "sum_sq_dev exact_ops [1, 1] = Some 0 \<and> is_zero exact_ops 0 \<and>
   linear_regression exact_ops [1, 1] [1, 2] = Inr None \<and>
   collect_points exact_ops (map (scored_row exact_ops) flat_table) = ([1, 1], [1, 2]) \<and>
   regression_stage exact_ops (map (scored_row exact_ops) flat_table)
       \<lparr>trace = [], world = 0 :: nat\<rparr> =
     (Inr (), \<lparr>trace = [Print MsgNotEnough], world = 0\<rparr>) \<and>
   Print MsgWrote \<in> set (trace (snd (main exact_ops example_run (Some flat_table) 0))) \<and>
   fst (main exact_ops example_run (Some flat_table) 0) = Inr () \<and>
   last (trace (snd (main exact_ops example_run (Some flat_table) 0))) = Print MsgNotEnough \<and>
   \<not> list_ex is_regression_event
       (trace (snd (main exact_ops example_run (Some flat_table) 0)))"
proof -
  note c3 = insufficient_data_reported [of exact_ops "[1, 1]" "[1, 2]"
      "map (scored_row exact_ops) flat_table" "\<lparr>trace = [], world = 0 :: nat\<rparr>"
      example_run flat_table 0 "Inr ()"
      "snd (main exact_ops example_run (Some flat_table) 0)"]
  have d: "sum_sq_dev exact_ops [1, 1] = Some 0" "is_zero exact_ops 0"
    by (simp_all add: sum_sq_dev_def mean_def py_sum_def exact_ops_def)
  with c3 have n: "linear_regression exact_ops [1, 1] [1, 2] = Inr None"
    by blast
  with c3 collect_flat_table have
    "regression_stage exact_ops (map (scored_row exact_ops) flat_table)
       \<lparr>trace = [], world = 0 :: nat\<rparr> =
     (Inr (), \<lparr>trace = [Print MsgNotEnough], world = 0\<rparr>)"
    by simp
  moreover have
    "Print MsgWrote \<in> set (trace (snd (main exact_ops example_run (Some flat_table) 0)))"
    by (simp add: main_flat_table)
  moreover from c3 n collect_flat_table have
    "last (trace (snd (main exact_ops example_run (Some flat_table) 0))) = Print MsgNotEnough"
    "\<not> list_ex is_regression_event
       (trace (snd (main exact_ops example_run (Some flat_table) 0)))"
    by (simp_all add: main_flat_table list_ex_iff)
  ultimately show ?thesis
    using d n collect_flat_table by (simp add: main_flat_table)
qed

text \<open>
  C3. The test \<^verbatim>\<open>den == 0\<close> of \<^verbatim>\<open>linear_regression\<close> is there for the points that have no
  variance in \<open>x\<close>, and it misses some of them: the mean of equal floats need not be that
  float. On the table of three records with the score \<^verbatim>\<open>0.1\<close> and the errors 1, 2 and 3,
  the computed mean of the scores is \<^verbatim>\<open>0.10000000000000002\<close>, the denominator is
  \<open>3 * 2^(-112)\<close> and not zero, and \<^verbatim>\<open>linear_regression\<close> returns the fit \<^verbatim>\<open>(0.0, 2.0)\<close> and
  not \<^verbatim>\<open>(None, None)\<close>; the run prints the fit and writes it to \<^verbatim>\<open>regression.txt\<close> with
  \<^verbatim>\<open>Used 3 points.\<close>, where it should report that there are not enough pairs and write
  no regression file. On three points with \<open>x = 2.1e201\<close> the deviations from the computed
  mean are not zero either, their square overflows, and \<^verbatim>\<open>linear_regression\<close> raises
  \<^verbatim>\<open>OverflowError\<close>, where it should never raise.
\<close>

theorem identical_scores_are_fitted:
  "mean double_ops [tenth, tenth, tenth] = tenth + 1 / 2 ^ 56 \<and>
   sum_sq_dev double_ops [tenth, tenth, tenth] = Some (3 / 2 ^ 112) \<and>
   linear_regression double_ops [tenth, tenth, tenth] [1, 2, 3] = Inr (Some (0, 2)) \<and>
   main double_ops example_run (Some tenth_table) 0 =
     (Inr (),
      \<lparr>trace =
         [Print (MsgLoaded 3),
          Print (MsgSkip (VStr ''UNKNOWN'')), Print (MsgSkip (VStr ''UNKNOWN'')),
          Print (MsgSkip (VStr ''UNKNOWN'')),
          OpenWrite ResultsCsv,
          WriteHeader [KStr ''Dimensionality'', KStr ''L3_Error'', KStr ''Total_Score''],
          WriteRow [VStr ''0.1'', VFloat 1, VFloat tenth],
          WriteRow [VStr ''0.1'', VFloat 2, VFloat tenth],
          WriteRow [VStr ''0.1'', VFloat 3, VFloat tenth],
          Print MsgWrote, Print (MsgRegression 0 2), OpenWrite RegressionTxt,
          WriteRegression 0 2, WriteUsed 3, Print MsgSaved],
       world = 0\<rparr>) \<and>
   linear_regression double_ops [huge21, huge21, huge21] [1, 2, 3] = Inl OverflowError"
proof -
  have "mean double_ops [tenth, tenth, tenth] = tenth + 1 / 2 ^ 56"
    unfolding mean_tenth by (simp add: tenth_def)
  then show ?thesis
    using sum_sq_dev_tenth linear_regression_tenth main_tenth_table linear_regression_huge21
    by simp
qed

section \<open>What a run writes to the results\<close>

lemma written_rows_append: "written_rows (tr1 @ tr2) = written_rows tr1 @ written_rows tr2"
  by (induction tr1 rule: written_rows.induct) simp_all

lemma written_headers_append:
  "written_headers (tr1 @ tr2) = written_headers tr1 @ written_headers tr2"
  by (induction tr1 rule: written_headers.induct) simp_all

lemma written_none:
  "\<forall>e\<in>set tr. written_rows [e] = [] \<and> written_headers [e] = [] \<Longrightarrow>
     written_rows tr = [] \<and> written_headers tr = []"
proof (induction tr)
  case Nil
  then show ?case by simp
next
  case (Cons e tr)
  then have "written_rows [e] = []" "written_headers [e] = []"
    "written_rows tr = []" "written_headers tr = []" by simp_all
  then show ?case
    using written_rows_append [of "[e]" tr] written_headers_append [of "[e]" tr] by simp
qed

lemma trainer_event_writes_nothing:
  "is_trainer_event e \<Longrightarrow> written_rows [e] = [] \<and> written_headers [e] = []"
  by (cases e rule: is_trainer_event.cases) simp_all

lemma loop_segment_writes_nothing:
  "loop_segment tr f \<Longrightarrow> written_rows tr = [] \<and> written_headers tr = []"
  by (rule written_none) (auto dest: loop_segment_events trainer_event_writes_nothing)

lemma written_rows_map: "written_rows (map (\<lambda>row. WriteRow (f row)) rs) = map f rs"
  by (induction rs) simp_all

lemma written_headers_map: "written_headers (map (\<lambda>row. WriteRow (f row)) rs) = []"
  by (induction rs) simp_all

lemma main_written:
  assumes m: "main ops run (Some rows) w = (r, st)" and ne: "rows \<noteq> []"
  defines "fns \<equiv> with_total_score (map fst (hd rows))"
  shows "\<exists>n\<le>length rows.
           written_rows (trace st) = map (\<lambda>row. row_cells fns (scored_row ops row)) (take n rows) \<and>
           (\<forall>i<n. set (map fst (scored_row ops (rows ! i))) \<subseteq> set fns) \<and>
           (0 < n \<longrightarrow> written_headers (trace st) = [fns]) \<and>
           (Print MsgWrote \<in> set (trace st) \<longrightarrow>
              n = length rows \<and> written_headers (trace st) = [fns])"
proof -
  let ?rows' = "map (scored_row ops) rows"
  let ?cells = "\<lambda>row. WriteRow (row_cells fns row)"
  from main_run [OF m ne] obtain tr where
    "(\<exists>e. r = Inl e \<and> loop_segment tr (Some e) \<and>
          trace st = Print (MsgLoaded (length rows)) # tr) \<or>
     (\<exists>n<length rows. r = Inl (Raised ValueError) \<and> loop_segment tr None \<and>
          trace st = Print (MsgLoaded (length rows)) # tr
             @ [OpenWrite ResultsCsv, WriteHeader fns] @ map ?cells (take n ?rows') \<and>
          \<not> set (map fst (?rows' ! n)) \<subseteq> set fns \<and>
          (\<forall>i<n. set (map fst (?rows' ! i)) \<subseteq> set fns)) \<or>
     (\<exists>st2. loop_segment tr None \<and>
          trace st2 = Print (MsgLoaded (length rows)) # tr
             @ [OpenWrite ResultsCsv, WriteHeader fns] @ map ?cells ?rows' @ [Print MsgWrote] \<and>
          (\<forall>row\<in>set ?rows'. set (map fst row) \<subseteq> set fns) \<and>
          regression_stage ops ?rows' st2 = (r, st))"
    (is "?A \<or> ?B \<or> ?C")
    unfolding fns_def by blast
  then consider ?A | ?B | ?C by blast
  then show ?thesis
  proof cases
    case 1
    then obtain e where a: "loop_segment tr (Some e)"
      "trace st = Print (MsgLoaded (length rows)) # tr" by blast
    have "Print MsgWrote \<notin> set (trace st)"
      using a by (auto dest: loop_segment_events)
    moreover have "written_rows (trace st) = []"
      using loop_segment_writes_nothing [OF a(1)] by (simp add: a(2))
    ultimately show ?thesis
      by (intro exI [of _ 0]) simp
  next
    case 2
    then obtain n where b: "n < length rows" "loop_segment tr None"
      "trace st = Print (MsgLoaded (length rows)) # tr
             @ [OpenWrite ResultsCsv, WriteHeader fns] @ map ?cells (take n ?rows')"
      "\<forall>i<n. set (map fst (?rows' ! i)) \<subseteq> set fns" by blast
    have "Print MsgWrote \<notin> set (trace st)"
      using b by (auto dest: loop_segment_events)
    moreover have "written_rows (trace st) = map (row_cells fns) (take n ?rows')"
      "written_headers (trace st) = [fns]"
      using loop_segment_writes_nothing [OF b(2)]
      by (simp_all add: b(3) written_rows_append written_headers_append written_rows_map
          written_headers_map)
    ultimately show ?thesis
      using b(1,4) by (intro exI [of _ n]) (simp add: take_map o_def)
  next
    case 3
    then obtain st2 where c: "loop_segment tr None"
      "trace st2 = Print (MsgLoaded (length rows)) # tr
             @ [OpenWrite ResultsCsv, WriteHeader fns] @ map ?cells ?rows' @ [Print MsgWrote]"
      "\<forall>row\<in>set ?rows'. set (map fst row) \<subseteq> set fns"
      "regression_stage ops ?rows' st2 = (r, st)" by blast
    from regression_stage_trace [OF c(4)] obtain tr4 where
      tr4: "trace st = trace st2 @ tr4"
      "\<forall>e\<in>set tr4. written_rows [e] = [] \<and> written_headers [e] = []" by blast
    have "written_rows (trace st) = map (row_cells fns) ?rows'"
      "written_headers (trace st) = [fns]"
      using loop_segment_writes_nothing [OF c(1)] written_none [OF tr4(2)]
      by (simp_all add: tr4(1) c(2) written_rows_append written_headers_append
          written_rows_map written_headers_map o_def)
    then show ?thesis
      using c(3) ne by (intro exI [of _ "length rows"]) (simp add: o_def)
  qed
qed

section \<open>The fields that are not computed\<close>

lemma get_error_None_iff:
  "(get_error_for_row ops row = None) =
     (case map_of row (KStr ''L3_Error'') of
        None \<Rightarrow> True
      | Some VNone \<Rightarrow> True
      | Some (VStr s) \<Rightarrow> s = [] \<or> float_of_str ops s = None
      | Some (VInt i) \<Rightarrow> False
      | Some (VFloat x) \<Rightarrow> False
      | Some (VList l) \<Rightarrow> True)"
  by (simp add: get_error_for_row_def parse_float_def py_get_def py_float_def
      split: option.split pyval.split)

lemma map_of_scored_row:
  assumes "get_error_for_row ops row = None" and "k \<noteq> KStr ''Total_Score''"
  shows "map_of (scored_row ops row) k = map_of row k"
  using assms by (simp add: scored_row_def get_error_for_row_def update_conv')

text \<open>
  C8. Take a record whose \<^verbatim>\<open>L3_Error\<close> is not rewritten, that is, for which
  \<^verbatim>\<open>get_error_for_row\<close> returns \<^verbatim>\<open>None\<close>: the field is absent, empty or not a number (lemma
  \<open>get_error_None_iff\<close>). The only field the run computes for it is \<^verbatim>\<open>Total_Score\<close>. In the
  row that the run writes for the record, every other field of the record stands under
  its column with the value it had: the cell handed to the writer is the original value,
  a text as a text.
\<close>

theorem unchanged_fields_are_written:
  assumes m: "main ops run (Some rows) w = (r, st)"
    and i: "i < length (written_rows (trace st))"
    and err: "get_error_for_row ops (rows ! i) = None"
    and kv: "map_of (rows ! i) k = Some v" and k: "k \<noteq> KStr ''Total_Score''"
  shows "i < length rows \<and>
         written_headers (trace st) = [with_total_score (map fst (hd rows))] \<and>
         map_of (zip (with_total_score (map fst (hd rows))) (written_rows (trace st) ! i)) k
           = Some v"
proof -
  let ?fns = "with_total_score (map fst (hd rows))"
  have ne: "rows \<noteq> []"
    using m i by (auto simp: main_no_rows)
  from main_written [OF m ne] obtain n where n: "n \<le> length rows"
    "written_rows (trace st) = map (\<lambda>row. row_cells ?fns (scored_row ops row)) (take n rows)"
    "\<forall>i<n. set (map fst (scored_row ops (rows ! i))) \<subseteq> set ?fns"
    "0 < n \<longrightarrow> written_headers (trace st) = [?fns]"
    by blast
  from i n(1,2) have "i < n" by simp
  with n(1) have il: "i < length rows" by simp
  from \<open>i < n\<close> n(1,2) have cells:
    "written_rows (trace st) ! i = row_cells ?fns (scored_row ops (rows ! i))"
    by simp
  have sk: "map_of (scored_row ops (rows ! i)) k = Some v"
    using map_of_scored_row [OF err k] kv by simp
  then have "k \<in> set (map fst (scored_row ops (rows ! i)))"
    by (metis map_of_eq_None_iff option.distinct(1) set_map)
  with n(3) \<open>i < n\<close> have "k \<in> set ?fns" by blast
  then have "map_of (zip ?fns (row_cells ?fns (scored_row ops (rows ! i)))) k = Some v"
    unfolding row_cells_def by (simp add: map_of_zip_map sk)
  with il cells n(4) \<open>i < n\<close> show ?thesis by simp
qed

theorem unchanged_fields_are_written_witness:
  "get_error_for_row exact_ops (plain_table ! 0) = None \<and>
   0 < length (written_rows (trace (snd (main exact_ops example_run (Some plain_table) 0)))) \<and>
   map_of (plain_table ! 0) (KStr ''Time'') = Some (VStr ''1'') \<and>
   KStr ''Time'' \<noteq> KStr ''Total_Score'' \<and>
   written_headers (trace (snd (main exact_ops example_run (Some plain_table) 0)))
     = [[KStr ''Name'', KStr ''Time'', KStr ''L3_Error'', KStr ''Total_Score'']] \<and>
   written_rows (trace (snd (main exact_ops example_run (Some plain_table) 0))) ! 0
     = [VStr ''heat'', VStr ''1'', VStr '''', VFloat 1] \<and>
   map_of (zip [KStr ''Name'', KStr ''Time'', KStr ''L3_Error'', KStr ''Total_Score'']
       (written_rows (trace (snd (main exact_ops example_run (Some plain_table) 0))) ! 0))
     (KStr ''Time'') = Some (VStr ''1'')"
proof -
  have e: "get_error_for_row exact_ops (plain_table ! 0) = None"
    by (simp add: plain_table_def get_error_for_row_def parse_float_def py_get_def)
  have kv: "map_of (plain_table ! 0) (KStr ''Time'') = Some (VStr ''1'' :: rat pyval)"
    by (simp add: plain_table_def)
  have h: "with_total_score (map fst (hd plain_table))
      = [KStr ''Name'', KStr ''Time'', KStr ''L3_Error'', KStr ''Total_Score'']"
    by (simp add: plain_table_def with_total_score_def)
  from unchanged_fields_are_written
    [of exact_ops example_run plain_table 0 "Inr ()"
      "snd (main exact_ops example_run (Some plain_table) 0)" 0 "KStr ''Time''" "VStr ''1''",
      OF _ _ e kv]
  show ?thesis
    using e kv by (simp add: main_plain_table h)
qed

section \<open>Runs that get through\<close>

lemma run_trainer_failure:
  assumes "run_trainer_for_row ops run row st = (Inl e, st')"
  shows "(\<forall>status. e \<noteq> SysExit status) \<and>
         (\<not> text_or_none (py_get row (KStr ''TrainerModule'')) \<or>
          \<not> list_all trainer_succeeded (trace st'))"
proof (cases "py_get row (KStr ''TrainerModule'')")
  case VNone
  with assms show ?thesis
    by (simp add: run_trainer_for_row_def truthy_def Let_def py_strip_def)
next
  case (VStr s)
  with assms show ?thesis
    by (auto simp: run_trainer_for_row_def truthy_def Let_def py_strip_def emit_def
        split: if_splits prod.splits proc_result.splits)
next
  case (VInt i)
  with assms show ?thesis
    by (auto simp: run_trainer_for_row_def truthy_def Let_def py_strip_def emit_def
        split: if_splits)
next
  case (VFloat x)
  with assms show ?thesis
    by (auto simp: run_trainer_for_row_def truthy_def Let_def py_strip_def emit_def
        split: if_splits)
next
  case (VList l)
  with assms show ?thesis
    by (auto simp: run_trainer_for_row_def truthy_def Let_def py_strip_def emit_def
        split: if_splits)
qed

lemma main_loop_failure:
  "main_loop ops run rows st = (Inl e, st') \<Longrightarrow>
     (\<forall>status. e \<noteq> SysExit status) \<and>
     (\<not> list_all (\<lambda>row. text_or_none (py_get row (KStr ''TrainerModule''))) rows \<or>
      \<not> list_all trainer_succeeded (trace st'))"
proof (induction rows arbitrary: st)
  case Nil
  then show ?case by simp
next
  case (Cons row rest)
  let ?row1 = "AList.update (KStr ''Total_Score'') (VFloat (sum_of_columns ops row)) row"
  have tm: "py_get ?row1 (KStr ''TrainerModule'') = py_get row (KStr ''TrainerModule'')"
    by (simp add: py_get_def update_conv')
  obtain r1 st1 where rt: "run_trainer_for_row ops run ?row1 st = (r1, st1)"
    by (cases "run_trainer_for_row ops run ?row1 st")
  show ?case
  proof (cases r1)
    case (Inl e1)
    with Cons.prems rt have "e = e1" "st' = st1"
      by (simp_all add: compute_total_score_sum)
    with run_trainer_failure [OF rt [unfolded Inl]] tm show ?thesis
      by auto
  next
    case (Inr u)
    with Cons.prems rt have "main_loop ops run rest st1 = (Inl e, st')"
      by (auto simp: compute_total_score_sum Let_def split: prod.splits sum.splits)
    from Cons.IH [OF this] show ?thesis by auto
  qed
qed

lemma linear_regression_raises:
  "linear_regression ops xs ys = Inl e \<Longrightarrow> xs \<noteq> [] \<and> sum_sq_dev ops xs = None"
  by (auto simp: linear_regression_def sum_sq_dev_def mean_def Let_def split: if_splits)

lemma regression_stage_result:
  assumes "regression_stage ops rows st = (r, st')"
    and "fst (collect_points ops rows) = [] \<or>
         sum_sq_dev ops (fst (collect_points ops rows)) \<noteq> None"
  shows "r = Inr ()"
  using assms
  by (auto simp: regression_stage_def split: prod.splits sum.splits option.splits
      dest: linear_regression_raises)

lemma regression_stage_no_exit:
  "regression_stage ops rows st = (r, st') \<Longrightarrow> r \<noteq> Inl (SysExit status)"
  by (auto simp: regression_stage_def split: prod.splits sum.splits option.splits)

lemma with_total_score_set:
  "set (with_total_score keys) = insert (KStr ''Total_Score'') (set keys)"
  by (auto simp: with_total_score_def)

lemma rectangular_scored:
  assumes "rectangular rows" and "i < length rows"
  shows "set (map fst (map (scored_row ops) rows ! i))
           \<subseteq> set (with_total_score (map fst (hd rows)))"
proof -
  from assms have "set (map fst (rows ! i)) \<subseteq> set (with_total_score (map fst (hd rows)))"
    by (simp add: rectangular_def list_all_length)
  then have "set (with_total_score (map fst (rows ! i)))
      \<subseteq> set (with_total_score (map fst (hd rows)))"
    by (auto simp: with_total_score_set)
  with assms(2) show ?thesis
    by (simp add: keys_scored_row)
qed

lemma main_completes:
  assumes m: "main ops run (Some rows) w = (r, st)" and ne: "rows \<noteq> []"
  shows "(\<forall>status. r \<noteq> Inl (SysExit status)) \<and>
         (list_all trainer_succeeded (trace st) \<and>
          list_all (\<lambda>row. text_or_none (py_get row (KStr ''TrainerModule''))) rows \<and>
          rectangular rows \<longrightarrow>
            Print MsgWrote \<in> set (trace st) \<and>
            (regression_defined ops rows \<longrightarrow> r = Inr ()))"
proof -
  let ?st0 = "emit (Print (MsgLoaded (length rows))) \<lparr>trace = [], world = w\<rparr>"
  let ?fns = "with_total_score (map fst (hd rows))"
  let ?rows' = "map (scored_row ops) rows"
    from main_run [OF m ne] obtain tr where
      "(\<exists>e. r = Inl e \<and> main_loop ops run rows ?st0 = (Inl e, st)) \<or>
       (\<exists>n<length rows. r = Inl (Raised ValueError) \<and> loop_segment tr None \<and>
            trace st = Print (MsgLoaded (length rows)) # tr
               @ [OpenWrite ResultsCsv, WriteHeader ?fns]
               @ map (\<lambda>row. WriteRow (row_cells ?fns row)) (take n ?rows') \<and>
            \<not> set (map fst (?rows' ! n)) \<subseteq> set ?fns \<and>
            (\<forall>i<n. set (map fst (?rows' ! i)) \<subseteq> set ?fns)) \<or>
       (\<exists>st2. loop_segment tr None \<and>
            trace st2 = Print (MsgLoaded (length rows)) # tr
               @ [OpenWrite ResultsCsv, WriteHeader ?fns]
               @ map (\<lambda>row. WriteRow (row_cells ?fns row)) ?rows' @ [Print MsgWrote] \<and>
            (\<forall>row\<in>set ?rows'. set (map fst row) \<subseteq> set ?fns) \<and>
            regression_stage ops ?rows' st2 = (r, st))"
      (is "?A \<or> ?B \<or> ?C")
      by blast
    then consider ?A | ?B | ?C by blast
    then show ?thesis
    proof cases
      case 1
      then obtain e where "r = Inl e" "main_loop ops run rows ?st0 = (Inl e, st)"
        by blast
      with main_loop_failure [of ops run rows ?st0 e st] show ?thesis by auto
    next
      case 2
      then obtain n where "n < length rows" "r = Inl (Raised ValueError)"
        "\<not> set (map fst (?rows' ! n)) \<subseteq> set ?fns" by blast
      then show ?thesis
        using rectangular_scored [of rows n ops] by auto
    next
      case 3
      then obtain st2 where c:
        "trace st2 = Print (MsgLoaded (length rows)) # tr
               @ [OpenWrite ResultsCsv, WriteHeader ?fns]
               @ map (\<lambda>row. WriteRow (row_cells ?fns row)) ?rows' @ [Print MsgWrote]"
        "regression_stage ops ?rows' st2 = (r, st)" by blast
      from regression_stage_trace [OF c(2)] c(1) have "Print MsgWrote \<in> set (trace st)"
        by auto
      with regression_stage_no_exit [OF c(2)] regression_stage_result [OF c(2)]
      show ?thesis
        by (auto simp: regression_defined_def Let_def)
    qed
qed

section \<open>The exit status\<close>

text \<open>
  C6, as the code has it. \<^verbatim>\<open>main\<close> exits with status 1 when \<^verbatim>\<open>PDE.csv\<close> does not exist,
  having done nothing but print the error, and exits with status 0 when the file has no
  data row, having done nothing but print that. On a table with rows it never calls
  \<^verbatim>\<open>sys.exit\<close>; it returns normally (the implicit success) when every call of a trainer
  starts its process and the process exits with status 0, every \<^verbatim>\<open>TrainerModule\<close> is text
  or \<^verbatim>\<open>None\<close>, no record has a key outside the header and no square overflows in the
  regression. It does not return normally on every table with rows: a trainer that exits
  with status 1 ends the run with \<^verbatim>\<open>CalledProcessError\<close>, as \<^verbatim>\<open>check=True\<close> asks.
\<close>

theorem entry_point_exit_status:
  "main ops run None w = (Inl (SysExit 1), \<lparr>trace = [Print MsgNotFound], world = w\<rparr>) \<and>
   main ops run (Some []) w = (Inl (SysExit 0), \<lparr>trace = [Print MsgNoRows], world = w\<rparr>) \<and>
   (rows \<noteq> [] \<and> main ops run (Some rows) w = (r, st) \<longrightarrow>
      (\<forall>status. r \<noteq> Inl (SysExit status)) \<and>
      (list_all trainer_succeeded (trace st) \<and>
       list_all (\<lambda>row. text_or_none (py_get row (KStr ''TrainerModule''))) rows \<and>
       rectangular rows \<and> regression_defined ops rows \<longrightarrow> r = Inr ()))"
  using main_no_rows [of ops run w] main_completes [of ops run rows w r st]
  by blast

lemma trained_table_conditions:
  "list_all (\<lambda>row. text_or_none (py_get row (KStr ''TrainerModule''))) trained_table"
  "rectangular trained_table"
  "regression_defined exact_ops trained_table"
  by (simp_all add: trained_table_def py_get_def rectangular_def with_total_score_def
      regression_defined_def scored_row_def sum_of_columns_def column_value_def
      parse_float_def py_float_def fzero_def sum_sq_dev_def mean_def py_sum_def
      exact_ops_def digit_value_def)

theorem entry_point_exit_status_witness:
  "trained_table \<noteq> [] \<and>
   list_ex (\<lambda>e. e = Subprocess ''ok'' (Exited 0))
     (trace (snd (main exact_ops example_run (Some trained_table) 0))) \<and>
   list_all trainer_succeeded
     (trace (snd (main exact_ops example_run (Some trained_table) 0))) \<and>
   list_all (\<lambda>row. text_or_none (py_get row (KStr ''TrainerModule''))) trained_table \<and>
   rectangular trained_table \<and> regression_defined exact_ops trained_table \<and>
   fst (main exact_ops example_run (Some trained_table) 0) = Inr () \<and>
   fst (main exact_ops example_run None 0) = Inl (SysExit 1) \<and>
   fst (main exact_ops example_run (Some []) 0) = Inl (SysExit 0)"
  using entry_point_exit_status [of exact_ops example_run 0 trained_table "Inr ()"
      "snd (main exact_ops example_run (Some trained_table) 0)"]
    trained_table_conditions
  by (simp add: main_trained_table) (simp add: trained_table_def)

theorem entry_point_exit_status_counterexample:
  "failing_table \<noteq> [] \<and>
   fst (main exact_ops example_run (Some failing_table) 0) = Inl (Raised CalledProcessError) \<and>
   fst (main exact_ops example_run (Some failing_table) 0) \<noteq> Inr ()"
  by (simp add: main_failing_table) (simp add: failing_table_def)

section \<open>scorer.py: what a run writes\<close>

lemma keys_scorer_scored_row:
  "map fst (scorer_scored_row ops row) = with_total_score (map fst row)"
  by (simp add: scorer_scored_row_def update_keys with_total_score_def)

lemma scorer_loop_trace:
  "scorer_loop ops fns rows tr = (r, tr') \<Longrightarrow>
     \<exists>n\<le>length rows.
        tr' = tr @ map (\<lambda>row. WriteRow (row_cells fns (scorer_scored_row ops row))) (take n rows) \<and>
        (r = Inr () \<and> n = length rows \<or>
         r = Inl (Raised ValueError) \<and> n < length rows \<and>
           \<not> set (map fst (scorer_scored_row ops (rows ! n))) \<subseteq> set fns)"
proof (induction rows arbitrary: tr)
  case Nil
  then show ?case by auto
next
  case (Cons row rest)
  let ?row1 = "scorer_scored_row ops row"
  have row1: "AList.update (KStr ''Total_Score'') (VFloat (scorer_compute_total_score ops row)) row
      = ?row1"
    by (simp add: scorer_scored_row_def scorer_compute_total_score_sum)
  show ?case
  proof (cases "set (map fst ?row1) \<subseteq> set fns")
    case False
    with Cons.prems have "r = Inl (Raised ValueError)" "tr' = tr"
      by (simp_all add: Let_def row1 dict_to_list_cases)
    with False show ?thesis
      by (intro exI [of _ 0]) simp
  next
    case True
    with Cons.prems have "scorer_loop ops fns rest (tr @ [WriteRow (row_cells fns ?row1)]) = (r, tr')"
      by (simp add: Let_def row1 dict_to_list_cases)
    from Cons.IH [OF this] obtain n where n: "n \<le> length rest"
      "tr' = (tr @ [WriteRow (row_cells fns ?row1)])
          @ map (\<lambda>row. WriteRow (row_cells fns (scorer_scored_row ops row))) (take n rest)"
      "r = Inr () \<and> n = length rest \<or>
         r = Inl (Raised ValueError) \<and> n < length rest \<and>
           \<not> set (map fst (scorer_scored_row ops (rest ! n))) \<subseteq> set fns"
      by blast
    then show ?thesis
      by (intro exI [of _ "Suc n"]) auto
  qed
qed

lemma scorer_main_written:
  assumes "scorer_main ops (Some (fieldnames, rows)) = (r, tr)"
  defines "hdr \<equiv> with_total_score (case fieldnames of None \<Rightarrow> [] | Some fs \<Rightarrow> fs)"
  shows "(r = Inr () \<longrightarrow>
            written_headers tr = [hdr] \<and>
            written_rows tr = map (\<lambda>row. row_cells hdr (scorer_scored_row ops row)) rows) \<and>
         (list_all (\<lambda>row. set (map fst row) \<subseteq> set hdr) rows \<longrightarrow> r = Inr ())"
proof -
  have h: "(if KStr ''Total_Score''
             \<notin> set (case fieldnames of None \<Rightarrow> [] | Some fs \<Rightarrow> if fs \<noteq> [] then fs else [])
           then (case fieldnames of None \<Rightarrow> [] | Some fs \<Rightarrow> if fs \<noteq> [] then fs else [])
                  @ [KStr ''Total_Score'']
           else (case fieldnames of None \<Rightarrow> [] | Some fs \<Rightarrow> if fs \<noteq> [] then fs else [])) = hdr"
    by (auto simp: hdr_def with_total_score_def split: option.splits)
  obtain r1 tr1 where sl:
    "scorer_loop ops hdr rows [OpenWrite ResultsCsv, WriteHeader hdr] = (r1, tr1)"
    by (cases "scorer_loop ops hdr rows [OpenWrite ResultsCsv, WriteHeader hdr]")
  from assms(1) sl have r: "r = r1"
    and tr: "tr = (if r1 = Inr () then tr1 @ [Print (MsgScored (length rows))] else tr1)"
    unfolding scorer_main_def Let_def option.case prod.case h
    by (auto split: sum.splits)
  from scorer_loop_trace [OF sl] obtain n where n: "n \<le> length rows"
    "tr1 = [OpenWrite ResultsCsv, WriteHeader hdr]
        @ map (\<lambda>row. WriteRow (row_cells hdr (scorer_scored_row ops row))) (take n rows)"
    "r1 = Inr () \<and> n = length rows \<or>
       r1 = Inl (Raised ValueError) \<and> n < length rows \<and>
         \<not> set (map fst (scorer_scored_row ops (rows ! n))) \<subseteq> set hdr"
    by blast
  have 1: "r = Inr () \<longrightarrow>
            written_headers tr = [hdr] \<and>
            written_rows tr = map (\<lambda>row. row_cells hdr (scorer_scored_row ops row)) rows"
    using r tr n
    by (auto simp: written_rows_append written_headers_append written_rows_map
        written_headers_map)
  have 2: "list_all (\<lambda>row. set (map fst row) \<subseteq> set hdr) rows \<longrightarrow> r = Inr ()"
  proof
    assume a: "list_all (\<lambda>row. set (map fst row) \<subseteq> set hdr) rows"
    have "KStr ''Total_Score'' \<in> set hdr"
      by (simp add: hdr_def with_total_score_set)
    with a have "\<forall>i<length rows. set (map fst (scorer_scored_row ops (rows ! i))) \<subseteq> set hdr"
      by (auto simp: list_all_length keys_scorer_scored_row with_total_score_set)
    with n(3) r show "r = Inr ()" by auto
  qed
  from 1 2 show ?thesis by blast
qed

section \<open>The records of the output\<close>

text \<open>
  C7, as the code has it. Whenever a run of \<^verbatim>\<open>loop.py\<close> on a table with rows gets through
  the writer (it prints that it wrote the results), it has written one header, the first
  record's columns in their order with \<^verbatim>\<open>Total_Score\<close> appended if it was not among them,
  and one row for every record loaded, in the order of the input: the cells of the scored
  record under that header. It gets through the writer when every call of a trainer
  starts its process and the process exits with status 0, every \<^verbatim>\<open>TrainerModule\<close> is text
  or \<^verbatim>\<open>None\<close> and no record has a key outside the header. Likewise a run of \<^verbatim>\<open>scorer.py\<close>
  that returns has written the reader's field names with \<^verbatim>\<open>Total_Score\<close> appended if
  absent and one row for every record, in order, and it returns when no record has a key
  outside that header.

  It does not hold for every table with rows: a run of \<^verbatim>\<open>loop.py\<close> in which a trainer fails
  writes no row at all, and on a table whose second record has a surplus cell (the key
  \<^verbatim>\<open>None\<close> of \<^verbatim>\<open>DictReader\<close>) either script writes the first record and then raises
  \<^verbatim>\<open>ValueError\<close> in \<^verbatim>\<open>DictWriter\<close>.
\<close>

theorem written_records_match_loaded:
  "(rows \<noteq> [] \<and> main ops run (Some rows) w = (r, st) \<longrightarrow>
      (Print MsgWrote \<in> set (trace st) \<longrightarrow>
         written_headers (trace st) = [with_total_score (map fst (hd rows))] \<and>
         written_rows (trace st) =
           map (\<lambda>row. row_cells (with_total_score (map fst (hd rows))) (scored_row ops row)) rows \<and>
         length (written_rows (trace st)) = length rows) \<and>
      (list_all trainer_succeeded (trace st) \<and>
       list_all (\<lambda>row. text_or_none (py_get row (KStr ''TrainerModule''))) rows \<and>
       rectangular rows \<longrightarrow> Print MsgWrote \<in> set (trace st))) \<and>
   (scorer_main ops (Some (fieldnames, rows)) = (r', tr) \<longrightarrow>
      (r' = Inr () \<longrightarrow>
         written_headers tr
           = [with_total_score (case fieldnames of None \<Rightarrow> [] | Some fs \<Rightarrow> fs)] \<and>
         written_rows tr =
           map (\<lambda>row. row_cells
                  (with_total_score (case fieldnames of None \<Rightarrow> [] | Some fs \<Rightarrow> fs))
                  (scorer_scored_row ops row)) rows \<and>
         length (written_rows tr) = length rows) \<and>
      (list_all (\<lambda>row. set (map fst row)
           \<subseteq> set (with_total_score (case fieldnames of None \<Rightarrow> [] | Some fs \<Rightarrow> fs))) rows
         \<longrightarrow> r' = Inr ()))"
proof -
  have 1: "written_headers (trace st) = [with_total_score (map fst (hd rows))] \<and>
         written_rows (trace st) =
           map (\<lambda>row. row_cells (with_total_score (map fst (hd rows))) (scored_row ops row)) rows \<and>
         length (written_rows (trace st)) = length rows"
    if "rows \<noteq> []" "main ops run (Some rows) w = (r, st)" "Print MsgWrote \<in> set (trace st)"
  proof -
    from main_written [OF that(2,1)] that(3) show ?thesis by auto
  qed
  have 2: "Print MsgWrote \<in> set (trace st)"
    if "rows \<noteq> []" "main ops run (Some rows) w = (r, st)"
      "list_all trainer_succeeded (trace st)"
      "list_all (\<lambda>row. text_or_none (py_get row (KStr ''TrainerModule''))) rows"
      "rectangular rows"
    using main_completes [OF that(2,1)] that(3-5) by blast
  have 3: "(r' = Inr () \<longrightarrow>
         written_headers tr
           = [with_total_score (case fieldnames of None \<Rightarrow> [] | Some fs \<Rightarrow> fs)] \<and>
         written_rows tr =
           map (\<lambda>row. row_cells
                  (with_total_score (case fieldnames of None \<Rightarrow> [] | Some fs \<Rightarrow> fs))
                  (scorer_scored_row ops row)) rows \<and>
         length (written_rows tr) = length rows) \<and>
      (list_all (\<lambda>row. set (map fst row)
           \<subseteq> set (with_total_score (case fieldnames of None \<Rightarrow> [] | Some fs \<Rightarrow> fs))) rows
         \<longrightarrow> r' = Inr ())"
    if "scorer_main ops (Some (fieldnames, rows)) = (r', tr)"
    using scorer_main_written [OF that] by auto
  from 1 2 3 show ?thesis by blast
qed

lemma scorer_main_ragged_table:
  "scorer_main exact_ops (Some (Some [KStr ''a''], ragged_table)) =
     (Inl (Raised ValueError),
      [OpenWrite ResultsCsv, WriteHeader [KStr ''a'', KStr ''Total_Score''],
       WriteRow [VStr ''1'', VFloat 0]])"
  by (simp add: ragged_table_def scorer_main_def scorer_compute_total_score_def
      COLUMNS_FOR_SCORING_def scorer_parse_float_def py_get_default_def py_float_def
      dict_to_list_def fzero_def exact_ops_def digit_value_def Let_def)

lemma scorer_main_trained_table:
  "scorer_main exact_ops
      (Some (Some [KStr ''Name'', KStr ''TrainerModule'', KStr ''Time'', KStr ''L3_Error''],
         trained_table)) =
     (Inr (),
      [OpenWrite ResultsCsv,
       WriteHeader [KStr ''Name'', KStr ''TrainerModule'', KStr ''Time'', KStr ''L3_Error'',
         KStr ''Total_Score''],
       WriteRow [VStr ''heat'', VStr ''ok'', VStr ''1'', VStr [], VFloat 1],
       WriteRow [VStr ''wave'', VStr '' train.wave'', VStr ''x'', VStr ''2'', VFloat 0],
       Print (MsgScored 2)])"
  by (simp add: trained_table_def scorer_main_def scorer_compute_total_score_def
      COLUMNS_FOR_SCORING_def scorer_parse_float_def py_get_default_def py_float_def
      dict_to_list_def fzero_def exact_ops_def digit_value_def Let_def)

theorem written_records_match_loaded_witness:
  "trained_table \<noteq> [] \<and>
   list_ex (\<lambda>e. e = Subprocess ''ok'' (Exited 0))
     (trace (snd (main exact_ops example_run (Some trained_table) 0))) \<and>
   Print MsgWrote \<in> set (trace (snd (main exact_ops example_run (Some trained_table) 0))) \<and>
   list_all trainer_succeeded
     (trace (snd (main exact_ops example_run (Some trained_table) 0))) \<and>
   list_all (\<lambda>row. text_or_none (py_get row (KStr ''TrainerModule''))) trained_table \<and>
   rectangular trained_table \<and>
   written_headers (trace (snd (main exact_ops example_run (Some trained_table) 0)))
     = [[KStr ''Name'', KStr ''TrainerModule'', KStr ''Time'', KStr ''L3_Error'',
         KStr ''Total_Score'']] \<and>
   length (written_rows (trace (snd (main exact_ops example_run (Some trained_table) 0))))
     = length trained_table \<and>
   fst (scorer_main exact_ops
      (Some (Some [KStr ''Name'', KStr ''TrainerModule'', KStr ''Time'', KStr ''L3_Error''],
         trained_table))) = Inr () \<and>
   list_all (\<lambda>row. set (map fst row)
       \<subseteq> set (with_total_score
           [KStr ''Name'', KStr ''TrainerModule'', KStr ''Time'', KStr ''L3_Error'']))
     trained_table \<and>
   written_headers (snd (scorer_main exact_ops
      (Some (Some [KStr ''Name'', KStr ''TrainerModule'', KStr ''Time'', KStr ''L3_Error''],
         trained_table))))
     = [[KStr ''Name'', KStr ''TrainerModule'', KStr ''Time'', KStr ''L3_Error'',
         KStr ''Total_Score'']] \<and>
   length (written_rows (snd (scorer_main exact_ops
      (Some (Some [KStr ''Name'', KStr ''TrainerModule'', KStr ''Time'', KStr ''L3_Error''],
         trained_table)))))
     = length trained_table"
proof -
  note c7 = written_records_match_loaded
    [of trained_table exact_ops example_run 0 "Inr ()"
      "snd (main exact_ops example_run (Some trained_table) 0)"
      "Some [KStr ''Name'', KStr ''TrainerModule'', KStr ''Time'', KStr ''L3_Error'']" "Inr ()"
      "snd (scorer_main exact_ops
         (Some (Some [KStr ''Name'', KStr ''TrainerModule'', KStr ''Time'', KStr ''L3_Error''],
            trained_table)))"]
  have ne: "trained_table \<noteq> []" and len: "length trained_table = 2"
    by (simp_all add: trained_table_def)
  have keys: "list_all (\<lambda>row. set (map fst row)
       \<subseteq> set (with_total_score
           [KStr ''Name'', KStr ''TrainerModule'', KStr ''Time'', KStr ''L3_Error'']))
     trained_table"
    by (simp add: trained_table_def with_total_score_def)
  have h: "with_total_score (map fst (hd trained_table))
      = [KStr ''Name'', KStr ''TrainerModule'', KStr ''Time'', KStr ''L3_Error'',
         KStr ''Total_Score'']"
    "with_total_score [KStr ''Name'', KStr ''TrainerModule'', KStr ''Time'', KStr ''L3_Error'']
      = [KStr ''Name'', KStr ''TrainerModule'', KStr ''Time'', KStr ''L3_Error'',
         KStr ''Total_Score'']"
    by (simp_all add: trained_table_def with_total_score_def)
  show ?thesis
    using c7 ne keys trained_table_conditions(1,2)
    by (simp add: main_trained_table scorer_main_trained_table h len)
qed

theorem written_records_match_loaded_counterexample:
  "length failing_table = 3 \<and>
   written_rows (trace (snd (main exact_ops example_run (Some failing_table) 0))) = [] \<and>
   length ragged_table = 2 \<and>
   length (written_rows (trace (snd (main exact_ops example_run (Some ragged_table) 0)))) = 1 \<and>
   length (written_rows (snd (scorer_main exact_ops (Some (Some [KStr ''a''], ragged_table)))))
     = 1"
  by (simp add: main_failing_table main_ragged_table scorer_main_ragged_table)
    (simp add: failing_table_def ragged_table_def)

end
